theory Spec2Isabelle
  imports Main
begin

section \<open>The gorip dispatcher: data model\<close>

text \<open>
  This theory embeds \<^verbatim>\<open>src/server.go\<close>: the request dispatcher
  \<^verbatim>\<open>Server.ServeHTTP\<close> and the response renderer
  \<^verbatim>\<open>Server.renderResourceResult\<close>. The router, the endpoint, the header
  parsers and the resource handler type live in files that are not part of the
  sources at hand; the dispatcher reaches them through the calls it makes, and the
  model takes each of them as a parameter with the signature the call site shows.
  Logging, the request dump and the duration measurement write to the diagnostics
  sink only and are left out.
\<close>

subsection \<open>Standard library: status codes, header maps, decimal rendering\<close>

definition StatusBadRequest :: int where
  "StatusBadRequest = 400"

definition StatusInternalServerError :: int where
  "StatusInternalServerError = 500"

text \<open>
  \<^verbatim>\<open>http.Header\<close> and \<^verbatim>\<open>url.Values\<close> are both
  \<^verbatim>\<open>map[string][]string\<close>. \<^verbatim>\<open>Get\<close> returns the first value stored
  under the key, or the empty string when there is none; \<^verbatim>\<open>Set\<close> replaces the
  values of a key by one value; \<^verbatim>\<open>Add\<close> appends a value.
\<close>

type_synonym Values = "string \<rightharpoonup> string list"

definition Get :: "Values \<Rightarrow> string \<Rightarrow> string" where
  "Get h key = (case h key of None \<Rightarrow> [] | Some vs \<Rightarrow> (case vs of [] \<Rightarrow> [] | v # _ \<Rightarrow> v))"

definition Set_value :: "Values \<Rightarrow> string \<Rightarrow> string \<Rightarrow> Values" where
  "Set_value h key v = h(key \<mapsto> [v])"

definition Add :: "Values \<Rightarrow> string \<Rightarrow> string \<Rightarrow> Values" where
  "Add h key v = h(key \<mapsto> (case h key of None \<Rightarrow> [] | Some vs \<Rightarrow> vs) @ [v])"

text \<open>\<^verbatim>\<open>strconv.Itoa\<close>: the decimal digits of an integer, with a minus sign below zero.\<close>

definition digit :: "nat \<Rightarrow> char" where
  "digit d = ''0123456789'' ! d"

fun Itoa_nat :: "nat \<Rightarrow> string" where
  "Itoa_nat n = (if n < 10 then [digit n] else Itoa_nat (n div 10) @ [digit (n mod 10)])"

declare Itoa_nat.simps [simp del]

definition Itoa :: "int \<Rightarrow> string" where
  "Itoa i = (if i < 0 then CHR ''-'' # Itoa_nat (nat (- i)) else Itoa_nat (nat i))"

text \<open>Reading a digit string back, to say what \<open>Itoa\<close> denotes.\<close>

definition digit_value :: "char \<Rightarrow> nat" where
  "digit_value c = of_char c - 48"

definition decimal_value :: "string \<Rightarrow> nat" where
  "decimal_value ds = foldl (\<lambda>acc c. 10 * acc + digit_value c) 0 ds"

subsection \<open>Results and the response writer\<close>

text \<open>
  \<^verbatim>\<open>ResourceHandlerResult\<close>: a status and a body buffer, which may be nil. A
  buffer is modelled by its unread bytes.
\<close>

record ResourceHandlerResult =
  HttpStatus :: int
  Body :: "string option"

text \<open>
  The \<^verbatim>\<open>http.ResponseWriter\<close> as the dispatcher sees it: its header map, the
  status of every \<^verbatim>\<open>WriteHeader\<close> call in call order, and the body bytes written.
\<close>

record ResponseWriter =
  Header :: Values
  WrittenStatus :: "int list"
  WrittenBody :: string

definition WriteHeader :: "ResponseWriter \<Rightarrow> int \<Rightarrow> ResponseWriter" where
  "WriteHeader w status = w\<lparr>WrittenStatus := WrittenStatus w @ [status]\<rparr>"

definition WriteTo :: "string \<Rightarrow> ResponseWriter \<Rightarrow> ResponseWriter" where
  "WriteTo b w = w\<lparr>WrittenBody := WrittenBody w @ b\<rparr>"

text \<open>
  \<^verbatim>\<open>renderResourceResult\<close> (server.go, lines 328 to 353). An error of
  \<^verbatim>\<open>WriteTo\<close> is only logged.
\<close>

definition renderResourceResult ::
  "ResponseWriter \<Rightarrow> ResourceHandlerResult \<Rightarrow> string \<Rightarrow> string \<Rightarrow> ResponseWriter" where
  "renderResourceResult writer result contentType requestId =
    (let bodyOutLen = (case Body result of None \<Rightarrow> 0 | Some b \<Rightarrow> int (length b));
         w1 = writer\<lparr>Header := Set_value (Header writer) ''Content-Length'' (Itoa bodyOutLen)\<rparr>;
         w2 = (if bodyOutLen > 0 then w1\<lparr>Header := Add (Header w1) ''Content-Type'' contentType\<rparr> else w1);
         w3 = WriteHeader w2 (HttpStatus result)
     in if bodyOutLen > 0 then (case Body result of None \<Rightarrow> w3 | Some b \<Rightarrow> WriteTo b w3) else w3)"

subsection \<open>Requests, handlers, endpoints and nodes\<close>

text \<open>
  The parts of \<^verbatim>\<open>http.Request\<close> the dispatcher reads: the method, the URL
  path, the parsed query string (\<^verbatim>\<open>request.URL.Query()\<close>), the header map,
  and what \<^verbatim>\<open>ioutil.ReadAll(request.Body)\<close> returns (the bytes and an error,
  nil when the read succeeded).
\<close>

record Request =
  Method :: string
  URL_Path :: string
  URL_Query :: Values
  RequestHeader :: Values
  RequestBody :: "string \<times> string option"

text \<open>
  A format validator is an object with the methods \<^verbatim>\<open>IsValid\<close> and
  \<^verbatim>\<open>GetErrorMessage\<close>. A query parameter declares a kind, a default value and
  an optional format validator (nil when there is none).
\<close>

record QueryParameterValidator =
  IsValid :: "string \<Rightarrow> bool"
  GetErrorMessage :: string

record QueryParameter =
  Kind :: string
  DefaultValue :: string
  FormatValidator :: "QueryParameterValidator option"

text \<open>
  The fields of a resource handler that the dispatcher reads. \<^verbatim>\<open>QueryParameters\<close>
  is a Go map, ranged over in an order the language leaves open: it is the list of
  its entries in the order of one iteration, and every statement below holds for
  any order. \<^verbatim>\<open>Implementation\<close> is the object whose \<^verbatim>\<open>Execute\<close> method
  runs the request; \<open>'impl\<close> is the type of references to such objects.
\<close>

record 'impl ResourceHandler =
  QueryParameters :: "(string \<times> QueryParameter) list"
  Implementation :: 'impl

text \<open>
  An endpoint as \<^verbatim>\<open>Server.NewEndpoint\<close> builds it: a route and the resource
  handlers added in registration order. Of a route node the dispatcher only reads
  the endpoint, nil when none is registered on it.
\<close>

record 'impl endpoint =
  route :: string
  resourceHandlers :: "'impl ResourceHandler list"

definition GetResourceHandlers :: "'impl endpoint \<Rightarrow> 'impl ResourceHandler list" where
  "GetResourceHandlers e = resourceHandlers e"

datatype 'impl node = Node (GetEndpoint: "'impl endpoint option")

text \<open>
  \<^verbatim>\<open>ResourceHandlerContext\<close>, handed to the handler. The pointer fields are
  options; a nil map reads like an empty one.
\<close>

record ResourceHandlerContext =
  RouteVariables :: "string \<rightharpoonup> string"
  ContextHeader :: Values
  RequestId :: "string option"
  ContentTypeIn :: "string option"
  ContentTypeOut :: "string option"
  ContextBody :: "string option"
  ContextQueryParameters :: "string \<rightharpoonup> string"

definition emptyContext :: ResourceHandlerContext where
  "emptyContext = \<lparr>RouteVariables = Map.empty, ContextHeader = Map.empty, RequestId = None,
     ContentTypeIn = None, ContentTypeOut = None, ContextBody = None,
     ContextQueryParameters = Map.empty\<rparr>"

subsection \<open>The server and its collaborators\<close>

text \<open>
  The router is modelled by its lookup \<^verbatim>\<open>FindNodeByRoute\<close>, which returns a
  node (or nil), the route variables and an error (or nil).
\<close>

record 'impl Server =
  pattern :: string
  address :: string
  router :: "string \<Rightarrow> 'impl node option \<times> (string \<rightharpoonup> string) \<times> string option"
  documentationEndpointEnabled :: bool
  documentationEndpointUrl :: string
  debugEnableLogRequestDump :: bool
  debugEnableLogRequestIdentifier :: bool
  debugEnableLogRequestDuration :: bool

text \<open>
  The functions the dispatcher calls and that are defined elsewhere, with the
  signatures of their call sites. \<open>'ctp\<close> and \<open>'ap\<close> are the types of the parsed
  Content-Type and Accept headers, \<open>'h\<close> is the state that handler objects keep
  between calls: \<^verbatim>\<open>Execute\<close> may read and change the state of the object it is
  called on. \<open>generateRequestId\<close> is the identifier derived from the clock.
\<close>

record ('impl, 'ctp, 'ap, 'h) collaborators =
  generateRequestId :: string
  serveDocumentation :: "ResponseWriter \<Rightarrow> ResponseWriter"
  newContentTypeHeaderParser :: "string \<Rightarrow> 'ctp \<times> string option"
  newAcceptHeaderParser :: "string \<Rightarrow> 'ap \<times> string option"
  HasAcceptElement :: "'ap \<Rightarrow> bool"
  FindMatchingResource :: "'impl endpoint \<Rightarrow> string \<Rightarrow> 'ctp \<Rightarrow> 'ap \<Rightarrow>
     'impl ResourceHandler option \<times> string option \<times> string option"
  IsValidType :: "QueryParameter \<Rightarrow> string \<Rightarrow> bool"
  Execute :: "'impl \<Rightarrow> ResourceHandlerContext \<Rightarrow> 'h \<Rightarrow> ResourceHandlerResult \<times> 'h"

subsection \<open>What a run of the dispatcher leaves behind\<close>

text \<open>The calls the dispatcher makes to its collaborators, in the order it makes them.\<close>

datatype 'impl call =
    CallServeDocumentation
  | CallFindNodeByRoute string
  | CallGetEndpoint
  | CallNewContentTypeHeaderParser string
  | CallNewAcceptHeaderParser string
  | CallHasAcceptElement
  | CallGetResourceHandlers
  | CallFindMatchingResource string
  | CallReadAll
  | CallIsValidType string string
  | CallIsValid string string
  | CallGetErrorMessage string
  | CallExecute 'impl ResourceHandlerContext

text \<open>
  The return statement by which \<^verbatim>\<open>ServeHTTP\<close> ends, one per branch of the
  source. \<open>NilContentTypeOut\<close> is the nil dereference of line 307.
\<close>

datatype exit =
    DocumentationServed
  | RouteLookupFailed
  | RouteNotFound
  | NoEndpointOnRoute
  | InvalidContentTypeHeader
  | InvalidAcceptHeader
  | NoAcceptableMediaType
  | NoResourceOnRoute
  | NoMatchingResource
  | BodyReadFailure
  | BodyNotAllowed
  | ResourceInstantiationFailure
  | DefaultValueMisconfigured
  | QueryParameterInvalidKind
  | QueryParameterInvalidFormat
  | Executed
  | NilContentTypeOut

record ('impl, 'h) outcome =
  response :: ResponseWriter
  calls :: "'impl call list"
  exit :: exit
  heap :: 'h

section \<open>The dispatcher\<close>

subsection \<open>Query parameters (server.go, lines 272 to 303)\<close>

text \<open>
  The body of the loop from line 284 on: the kind check of the value, then the
  format validator when there is one. The result is the list of calls made and
  either the response of an early return (\<open>Inl\<close>, with the return taken) or the
  value to store in the context (\<open>Inr\<close>).
\<close>

definition checkQueryParameterValue ::
  "('impl, 'ctp, 'ap, 'h) collaborators \<Rightarrow> string \<Rightarrow> string \<Rightarrow> QueryParameter \<Rightarrow> string \<Rightarrow>
     'impl call list \<times> ((exit \<times> ResourceHandlerResult) + string)" where
  "checkQueryParameterValue env requestId qpKey qpObject qpValue =
    (if \<not> IsValidType env qpObject qpValue then
       ([CallIsValidType qpKey qpValue],
        Inl (QueryParameterInvalidKind,
             \<lparr>HttpStatus = StatusBadRequest,
              Body = Some (''['' @ requestId @ ''] Query parameter '' @ qpKey @
                           '' must be of kind '' @ Kind qpObject)\<rparr>))
     else
       (case FormatValidator qpObject of
          None \<Rightarrow> ([CallIsValidType qpKey qpValue], Inr qpValue)
        | Some validator \<Rightarrow>
            if \<not> IsValid validator qpValue then
              ([CallIsValidType qpKey qpValue, CallIsValid qpKey qpValue, CallGetErrorMessage qpKey],
               Inl (QueryParameterInvalidFormat,
                    \<lparr>HttpStatus = StatusBadRequest,
                     Body = Some (''['' @ requestId @ ''] Invalid Query Parameter, '' @
                                  GetErrorMessage validator)\<rparr>))
            else
              ([CallIsValidType qpKey qpValue, CallIsValid qpKey qpValue], Inr qpValue)))"

text \<open>
  The whole body of the loop, lines 273 to 302: an empty value read from the query
  string is replaced by the default, which is checked against the kind first.
\<close>

definition checkQueryParameter ::
  "('impl, 'ctp, 'ap, 'h) collaborators \<Rightarrow> string \<Rightarrow> Values \<Rightarrow> string \<Rightarrow> QueryParameter \<Rightarrow>
     'impl call list \<times> ((exit \<times> ResourceHandlerResult) + string)" where
  "checkQueryParameter env requestId urlValues qpKey qpObject =
    (let qpValue = Get urlValues qpKey in
     if qpValue = [] then
       (let qpValue = DefaultValue qpObject in
        if \<not> IsValidType env qpObject qpValue then
          ([CallIsValidType qpKey qpValue],
           Inl (DefaultValueMisconfigured,
                \<lparr>HttpStatus = StatusBadRequest,
                 Body = Some (''['' @ requestId @ ''] Query parameter '' @ qpKey @
                              '' default value must be of kind '' @ Kind qpObject)\<rparr>))
        else
          (case checkQueryParameterValue env requestId qpKey qpObject qpValue of
             (cs, r) \<Rightarrow> (CallIsValidType qpKey qpValue # cs, r)))
     else checkQueryParameterValue env requestId qpKey qpObject qpValue)"

text \<open>
  The loop over the declared parameters: it returns at the first parameter that
  fails, and otherwise stores each value under its name.
\<close>

fun checkQueryParameters ::
  "('impl, 'ctp, 'ap, 'h) collaborators \<Rightarrow> string \<Rightarrow> Values \<Rightarrow> (string \<times> QueryParameter) list \<Rightarrow>
     (string \<rightharpoonup> string) \<Rightarrow>
     'impl call list \<times> ((exit \<times> ResourceHandlerResult) + (string \<rightharpoonup> string))" where
  "checkQueryParameters env requestId urlValues [] qps = ([], Inr qps)"
| "checkQueryParameters env requestId urlValues ((qpKey, qpObject) # rest) qps =
    (case checkQueryParameter env requestId urlValues qpKey qpObject of
       (cs, Inl r) \<Rightarrow> (cs, Inl r)
     | (cs, Inr qpValue) \<Rightarrow>
         (case checkQueryParameters env requestId urlValues rest (qps(qpKey \<mapsto> qpValue)) of
            (cs', r) \<Rightarrow> (cs @ cs', r)))"

subsection \<open>\<^verbatim>\<open>ServeHTTP\<close> (server.go, lines 116 to 309)\<close>

text \<open>Lines 125 to 128: the request identifier, \<^verbatim>\<open>"o"\<close> when identifiers are off.\<close>

definition requestIdOf :: "'impl Server \<Rightarrow> ('impl, 'ctp, 'ap, 'h) collaborators \<Rightarrow> string" where
  "requestIdOf s env =
    (if debugEnableLogRequestIdentifier s then generateRequestId env else ''o'')"

text \<open>
  The dispatcher is written in two parts, cut where the source says
  \<^verbatim>\<open>// Found a matching resource implementation:\<close>. This is the second part,
  lines 234 to 308: \<open>c\<close> is the list of calls made so far, \<open>h\<close> the state of the
  handler objects before the request, and \<open>matchingResource\<close> is the pointer that
  \<^verbatim>\<open>FindMatchingResource\<close> returned. A handler is taken not to change the
  context it is given.
\<close>

definition ServeHTTP_resource ::
  "('impl, 'ctp, 'ap, 'h) collaborators \<Rightarrow> ResponseWriter \<Rightarrow> Request \<Rightarrow> 'h \<Rightarrow> string \<Rightarrow>
     ResourceHandlerContext \<Rightarrow> 'impl call list \<Rightarrow>
     'impl ResourceHandler option \<Rightarrow> string option \<Rightarrow> string option \<Rightarrow> ('impl, 'h) outcome" where
  "ServeHTTP_resource env writer request h requestId resourceHandlerContext c
       matchingResource contentTypeIn contentTypeOut =
    (let resourceHandlerContext = resourceHandlerContext
           \<lparr>ContentTypeIn := contentTypeIn, ContentTypeOut := contentTypeOut\<rparr>;
         c8 = c @ [CallReadAll]
     in
     (case RequestBody request of (bodyInBytes, err) \<Rightarrow>
     (case err of
        Some _ \<Rightarrow>
          \<lparr>response = renderResourceResult writer
             \<lparr>HttpStatus = StatusInternalServerError,
              Body = Some (''['' @ requestId @ ''] Could not read request body'')\<rparr>
             ''text/plain'' requestId,
           calls = c8, exit = BodyReadFailure, heap = h\<rparr>
      | None \<Rightarrow>
     if ContentTypeIn resourceHandlerContext = None \<and> length bodyInBytes > 0 then
          \<lparr>response = renderResourceResult writer
             \<lparr>HttpStatus = StatusBadRequest,
              Body = Some (''['' @ requestId @ ''] Body is not allowed for this resource'')\<rparr>
             ''text/plain'' requestId,
           calls = c8, exit = BodyNotAllowed, heap = h\<rparr>
     else
     let resourceHandlerContext = resourceHandlerContext\<lparr>ContextBody := Some bodyInBytes\<rparr>;
         resource = matchingResource
     in
     (case resource of
        None \<Rightarrow>
          \<lparr>response = renderResourceResult writer
             \<lparr>HttpStatus = StatusInternalServerError,
              Body = Some (''['' @ requestId @
                           ''] Resource factory must instanciate a valid Resource'')\<rparr>
             ''text/plain'' requestId,
           calls = c8, exit = ResourceInstantiationFailure, heap = h\<rparr>
      | Some resource \<Rightarrow>
     (case checkQueryParameters env requestId (URL_Query request)
             (QueryParameters resource) Map.empty of
        (cs, Inl (x, result)) \<Rightarrow>
          \<lparr>response = renderResourceResult writer result ''text/plain'' requestId,
           calls = c8 @ cs, exit = x, heap = h\<rparr>
      | (cs, Inr queryParameters) \<Rightarrow>
     let resourceHandlerContext = resourceHandlerContext
           \<lparr>ContextQueryParameters := queryParameters\<rparr>;
         c9 = c8 @ cs @ [CallExecute (Implementation resource) resourceHandlerContext]
     in
     (case Execute env (Implementation resource) resourceHandlerContext h of
        (result, h') \<Rightarrow>
     (case ContentTypeOut resourceHandlerContext of
        None \<Rightarrow> \<lparr>response = writer, calls = c9, exit = NilContentTypeOut, heap = h'\<rparr>
      | Some contentTypeOut \<Rightarrow>
          \<lparr>response = renderResourceResult writer result contentTypeOut requestId,
           calls = c9, exit = Executed, heap = h'\<rparr>
     )))))))"

text \<open>
  The first part, lines 116 to 232, which ends in the second. The endpoint of the
  node is read twice (lines 182 and 215); both reads give the same endpoint, bound
  once as \<open>endp\<close>.
\<close>

definition ServeHTTP ::
  "'impl Server \<Rightarrow> ('impl, 'ctp, 'ap, 'h) collaborators \<Rightarrow> ResponseWriter \<Rightarrow> Request \<Rightarrow> 'h \<Rightarrow>
     ('impl, 'h) outcome" where
  "ServeHTTP s env writer request h =
    (let requestId = requestIdOf s env;
         urlPath = URL_Path request;
         method = Method request
     in
     if documentationEndpointEnabled s \<and> documentationEndpointUrl s = urlPath then
       \<lparr>response = serveDocumentation env writer, calls = [CallServeDocumentation],
        exit = DocumentationServed, heap = h\<rparr>
     else
     (case router s urlPath of (node, routeVariables, err) \<Rightarrow>
     let c1 = [CallFindNodeByRoute urlPath] in
     (case err of
        Some message \<Rightarrow>
          \<lparr>response = renderResourceResult writer
             \<lparr>HttpStatus = StatusBadRequest, Body = Some message\<rparr> ''text/plain'' requestId,
           calls = c1, exit = RouteLookupFailed, heap = h\<rparr>
      | None \<Rightarrow>
     (case node of
        None \<Rightarrow>
          \<lparr>response = renderResourceResult writer
             \<lparr>HttpStatus = StatusBadRequest,
              Body = Some (''['' @ requestId @ ''] Could not find route for '' @ urlPath)\<rparr>
             ''text/plain'' requestId,
           calls = c1, exit = RouteNotFound, heap = h\<rparr>
      | Some node \<Rightarrow>
     let resourceHandlerContext = emptyContext
           \<lparr>RouteVariables := routeVariables,
            ContextHeader := RequestHeader request,
            RequestId := (if debugEnableLogRequestIdentifier s then Some requestId else None)\<rparr>;
         c2 = c1 @ [CallGetEndpoint]
     in
     (case GetEndpoint node of
        None \<Rightarrow>
          \<lparr>response = renderResourceResult writer
             \<lparr>HttpStatus = StatusInternalServerError,
              Body = Some (''['' @ requestId @ ''] No endpoint found for this route '' @ urlPath)\<rparr>
             ''text/plain'' requestId,
           calls = c2, exit = NoEndpointOnRoute, heap = h\<rparr>
      | Some endp \<Rightarrow>
     (case newContentTypeHeaderParser env (Get (RequestHeader request) ''Content-Type'') of
        (contentTypeParser, err) \<Rightarrow>
     let c3 = c2 @ [CallNewContentTypeHeaderParser (Get (RequestHeader request) ''Content-Type'')] in
     (case err of
        Some e \<Rightarrow>
          \<lparr>response = renderResourceResult writer
             \<lparr>HttpStatus = StatusBadRequest,
              Body = Some (''['' @ requestId @ ''] Invalid Content-Type header : '' @ e)\<rparr>
             ''text/plain'' requestId,
           calls = c3, exit = InvalidContentTypeHeader, heap = h\<rparr>
      | None \<Rightarrow>
     (case newAcceptHeaderParser env (Get (RequestHeader request) ''Accept'') of
        (acceptParser, err) \<Rightarrow>
     let c4 = c3 @ [CallNewAcceptHeaderParser (Get (RequestHeader request) ''Accept'')] in
     (case err of
        Some e \<Rightarrow>
          \<lparr>response = renderResourceResult writer
             \<lparr>HttpStatus = StatusBadRequest,
              Body = Some (''['' @ requestId @ ''] Invalid Accept header : '' @ e)\<rparr>
             ''text/plain'' requestId,
           calls = c4, exit = InvalidAcceptHeader, heap = h\<rparr>
      | None \<Rightarrow>
     let c5 = c4 @ [CallHasAcceptElement] in
     if \<not> HasAcceptElement env acceptParser then
          \<lparr>response = renderResourceResult writer
             \<lparr>HttpStatus = StatusBadRequest,
              Body = Some (''['' @ requestId @ ''] No valid Accept header was given'')\<rparr>
             ''text/plain'' requestId,
           calls = c5, exit = NoAcceptableMediaType, heap = h\<rparr>
     else
     let availableResourceImplementations = GetResourceHandlers endp;
         c6 = c5 @ [CallGetEndpoint, CallGetResourceHandlers]
     in
     if length availableResourceImplementations = 0 then
          \<lparr>response = renderResourceResult writer
             \<lparr>HttpStatus = StatusInternalServerError,
              Body = Some (''['' @ requestId @ ''] No resource found on this route '' @ urlPath)\<rparr>
             ''text/plain'' requestId,
           calls = c6, exit = NoResourceOnRoute, heap = h\<rparr>
     else
     (case FindMatchingResource env endp method contentTypeParser acceptParser of
        (matchingResource, contentTypeIn, contentTypeOut) \<Rightarrow>
     let c7 = c6 @ [CallFindMatchingResource method] in
     (case matchingResource of
        None \<Rightarrow>
          \<lparr>response = renderResourceResult writer
             \<lparr>HttpStatus = StatusBadRequest,
              Body = Some (''['' @ requestId @ ''] No available resource for this Content-Type'')\<rparr>
             ''text/plain'' requestId,
           calls = c7, exit = NoMatchingResource, heap = h\<rparr>
      | Some _ \<Rightarrow>
          ServeHTTP_resource env writer request h requestId resourceHandlerContext c7
            matchingResource contentTypeIn contentTypeOut
     )))))))))))"

text \<open>
  The status that each error return of \<^verbatim>\<open>ServeHTTP\<close> passes to
  \<^verbatim>\<open>renderResourceResult\<close>, as the source writes it (lines 159, 167, 185, 195,
  203, 210, 221, 230, 246, 253, 263, 279, 287 and 296).
\<close>

fun errorStatus :: "exit \<Rightarrow> int option" where
  "errorStatus RouteLookupFailed = Some StatusBadRequest"
| "errorStatus RouteNotFound = Some StatusBadRequest"
| "errorStatus NoEndpointOnRoute = Some StatusInternalServerError"
| "errorStatus InvalidContentTypeHeader = Some StatusBadRequest"
| "errorStatus InvalidAcceptHeader = Some StatusBadRequest"
| "errorStatus NoAcceptableMediaType = Some StatusBadRequest"
| "errorStatus NoResourceOnRoute = Some StatusInternalServerError"
| "errorStatus NoMatchingResource = Some StatusBadRequest"
| "errorStatus BodyReadFailure = Some StatusInternalServerError"
| "errorStatus BodyNotAllowed = Some StatusBadRequest"
| "errorStatus ResourceInstantiationFailure = Some StatusInternalServerError"
| "errorStatus DefaultValueMisconfigured = Some StatusBadRequest"
| "errorStatus QueryParameterInvalidKind = Some StatusBadRequest"
| "errorStatus QueryParameterInvalidFormat = Some StatusBadRequest"
| "errorStatus DocumentationServed = None"
| "errorStatus Executed = None"
| "errorStatus NilContentTypeOut = None"

text \<open>
  A writer \<open>w'\<close> is what \<^verbatim>\<open>renderResourceResult\<close> makes of the writer
  \<open>w\<close> for some result and some content type.
\<close>

definition rendered :: "ResponseWriter \<Rightarrow> string \<Rightarrow> ResponseWriter \<Rightarrow> bool" where
  "rendered w rid w' = (\<exists>result ct. w' = renderResourceResult w result ct rid)"

section \<open>The query parameters as the specification describes them\<close>

text \<open>
  These three definitions follow the words of the specification, not the code; the
  theorems below compare the dispatcher with them. The value of a declared
  parameter for a request is the first value given under its name in the query
  string, or the configured default when that value is the empty string, which is
  also what \<^verbatim>\<open>Get\<close> returns for a name that is not in the query string. A
  parameter is accepted when this value passes the kind check and the format
  validator, if one is declared. \<^verbatim>\<open>storeQueryParameters\<close> is the name-to-string
  mapping of these values, built in iteration order.
\<close>

definition queryParameterValue :: "Values \<Rightarrow> string \<Rightarrow> QueryParameter \<Rightarrow> string" where
  "queryParameterValue urlValues qpKey qpObject =
    (if Get urlValues qpKey = [] then DefaultValue qpObject else Get urlValues qpKey)"

definition queryParameterAccepted ::
  "('impl, 'ctp, 'ap, 'h) collaborators \<Rightarrow> Values \<Rightarrow> string \<times> QueryParameter \<Rightarrow> bool" where
  "queryParameterAccepted env urlValues p =
    (case p of (qpKey, qpObject) \<Rightarrow>
       IsValidType env qpObject (queryParameterValue urlValues qpKey qpObject) \<and>
       (case FormatValidator qpObject of
          None \<Rightarrow> True
        | Some validator \<Rightarrow> IsValid validator (queryParameterValue urlValues qpKey qpObject)))"

fun storeQueryParameters ::
  "Values \<Rightarrow> (string \<times> QueryParameter) list \<Rightarrow> (string \<rightharpoonup> string) \<Rightarrow> (string \<rightharpoonup> string)" where
  "storeQueryParameters urlValues [] qps = qps"
| "storeQueryParameters urlValues ((qpKey, qpObject) # rest) qps =
     storeQueryParameters urlValues rest
       (qps(qpKey \<mapsto> queryParameterValue urlValues qpKey qpObject))"

section \<open>A concrete server\<close>

text \<open>
  A small installation on which the statements below are run: handler objects are
  numbered, and the state of an object is a counter that its \<^verbatim>\<open>Execute\<close>
  increments and returns as the body. The Content-Type parser keeps the header
  text, the Accept parser keeps one entry per non-empty header, and the first
  handler of an endpoint matches every \<^verbatim>\<open>GET\<close>.
\<close>

definition newWriter :: ResponseWriter where
  "newWriter = \<lparr>Header = Map.empty, WrittenStatus = [], WrittenBody = []\<rparr>"

definition isDecimal :: "string \<Rightarrow> bool" where
  "isDecimal v = (v \<noteq> [] \<and> list_all (\<lambda>c. c \<in> set ''0123456789'') v)"

definition exampleCollaborators :: "(nat, string, string list, nat \<Rightarrow> nat) collaborators" where
  "exampleCollaborators =
    \<lparr>generateRequestId = ''r1'',
     serveDocumentation = (\<lambda>w. WriteTo ''documentation'' (WriteHeader w 200)),
     newContentTypeHeaderParser =
       (\<lambda>v. (v, if v = [] \<or> CHR ''/'' \<in> set v then None else Some ''missing /'')),
     newAcceptHeaderParser = (\<lambda>v. (if v = [] then [] else [v], None)),
     HasAcceptElement = (\<lambda>ap. ap \<noteq> []),
     FindMatchingResource =
       (\<lambda>endp method ctp ap.
          case resourceHandlers endp of
            [] \<Rightarrow> (None, None, None)
          | r # _ \<Rightarrow>
              if method = ''GET''
              then (Some r, if ctp = [] then None else Some ctp, Some ''application/json'')
              else (None, None, None)),
     IsValidType = (\<lambda>qp v. if Kind qp = ''int'' then isDecimal v else True),
     Execute =
       (\<lambda>impl ctx h.
          (\<lparr>HttpStatus = 200, Body = Some (Itoa (int (h impl + 1)))\<rparr>, h(impl := h impl + 1)))\<rparr>"

definition limitValidator :: QueryParameterValidator where
  "limitValidator = \<lparr>IsValid = (\<lambda>v. length v \<le> 3), GetErrorMessage = ''limit is too large''\<rparr>"

definition itemsHandler :: "nat ResourceHandler" where
  "itemsHandler =
    \<lparr>QueryParameters =
       [(''limit'', \<lparr>Kind = ''int'', DefaultValue = ''10'', FormatValidator = Some limitValidator\<rparr>)],
     Implementation = 0\<rparr>"

definition reportsHandler :: "nat ResourceHandler" where
  "reportsHandler =
    \<lparr>QueryParameters =
       [(''limit'', \<lparr>Kind = ''int'', DefaultValue = ''ten'', FormatValidator = None\<rparr>)],
     Implementation = 1\<rparr>"

definition itemsEndpoint :: "nat endpoint" where
  "itemsEndpoint = \<lparr>route = ''/items'', resourceHandlers = [itemsHandler]\<rparr>"

definition exampleRouter ::
  "string \<Rightarrow> nat node option \<times> (string \<rightharpoonup> string) \<times> string option" where
  "exampleRouter urlPath =
    (if urlPath = ''/items''
     then (Some (Node (Some itemsEndpoint)), Map.empty, None)
     else if urlPath = ''/reports''
     then (Some (Node (Some \<lparr>route = ''/reports'', resourceHandlers = [reportsHandler]\<rparr>)),
           Map.empty, None)
     else if urlPath = ''/api''
     then (Some (Node None), Map.empty, None)
     else (None, Map.empty, None))"

definition exampleServer :: "nat Server" where
  "exampleServer =
    \<lparr>pattern = ''/'', address = '':8080'', router = exampleRouter,
     documentationEndpointEnabled = False, documentationEndpointUrl = [],
     debugEnableLogRequestDump = False, debugEnableLogRequestIdentifier = False,
     debugEnableLogRequestDuration = False\<rparr>"

definition getRequest :: "string \<Rightarrow> Values \<Rightarrow> Request" where
  "getRequest urlPath urlValues =
    \<lparr>Method = ''GET'', URL_Path = urlPath, URL_Query = urlValues,
     RequestHeader = [''Accept'' \<mapsto> [''application/json'']], RequestBody = ([], None)\<rparr>"

text \<open>Requests used below: one without an Accept header, one with a body.\<close>

definition noAcceptRequest :: Request where
  "noAcceptRequest =
    \<lparr>Method = ''GET'', URL_Path = ''/items'', URL_Query = Map.empty,
     RequestHeader = Map.empty, RequestBody = ([], None)\<rparr>"

definition bodyRequest :: Request where
  "bodyRequest =
    \<lparr>Method = ''GET'', URL_Path = ''/items'', URL_Query = Map.empty,
     RequestHeader = [''Accept'' \<mapsto> [''application/json'']], RequestBody = (''{}'', None)\<rparr>"

text \<open>
  The same collaborators with a handler that answers with the value it received
  for \<^verbatim>\<open>limit\<close>, so that what the dispatcher delivers shows in the response.
\<close>

definition echoCollaborators :: "(nat, string, string list, nat \<Rightarrow> nat) collaborators" where
  "echoCollaborators =
    exampleCollaborators\<lparr>Execute :=
      (\<lambda>impl ctx h.
         (\<lparr>HttpStatus = 200, Body = ContextQueryParameters ctx ''limit''\<rparr>, h(impl := h impl + 1)))\<rparr>"

section \<open>Properties\<close>

text \<open>The definitions to unfold when the dispatcher is run on the concrete server.\<close>

lemmas example_defs = exampleServer_def exampleCollaborators_def exampleRouter_def getRequest_def
  itemsEndpoint_def itemsHandler_def reportsHandler_def limitValidator_def newWriter_def
  isDecimal_def

lemmas run_defs = ServeHTTP_def ServeHTTP_resource_def requestIdOf_def checkQueryParameter_def
  checkQueryParameterValue_def renderResourceResult_def Get_def Set_value_def Add_def
  WriteHeader_def WriteTo_def GetResourceHandlers_def emptyContext_def
  StatusBadRequest_def StatusInternalServerError_def Itoa_def Itoa_nat.simps digit_def Let_def

subsection \<open>The renderer and the parameter loop\<close>

lemma renderResourceResult_status:
  "WrittenStatus (renderResourceResult w r ct rid) = WrittenStatus w @ [HttpStatus r]"
  by (simp add: renderResourceResult_def Let_def WriteHeader_def WriteTo_def split: option.splits)

lemma renderResourceResult_body:
  "WrittenBody (renderResourceResult w r ct rid) =
     WrittenBody w @ (case Body r of None \<Rightarrow> [] | Some b \<Rightarrow> b)"
  by (simp add: renderResourceResult_def Let_def WriteHeader_def WriteTo_def split: option.splits)

lemma checkQueryParameterValue_exit:
  "checkQueryParameterValue env rid k qp v = (cs, Inl (x, r)) \<Longrightarrow>
     (x = QueryParameterInvalidKind \<or> x = QueryParameterInvalidFormat) \<and>
     HttpStatus r = StatusBadRequest"
  by (auto simp: checkQueryParameterValue_def split: if_splits option.splits)

lemma checkQueryParameter_exit:
  "checkQueryParameter env rid uv k qp = (cs, Inl (x, r)) \<Longrightarrow>
     (x = DefaultValueMisconfigured \<or> x = QueryParameterInvalidKind \<or>
      x = QueryParameterInvalidFormat) \<and>
     HttpStatus r = StatusBadRequest"
  by (auto simp: checkQueryParameter_def Let_def split: if_splits prod.splits
           dest: checkQueryParameterValue_exit)

text \<open>The loop leaves early only by one of its three returns, each with status 400.\<close>

lemma checkQueryParameters_exit:
  "checkQueryParameters env rid uv ps m = (cs, Inl (x, r)) \<Longrightarrow>
     (x = DefaultValueMisconfigured \<or> x = QueryParameterInvalidKind \<or>
      x = QueryParameterInvalidFormat) \<and>
     HttpStatus r = StatusBadRequest"
proof (induction ps arbitrary: m cs)
  case Nil
  then show ?case by simp
next
  case (Cons p ps)
  obtain k qp where p: "p = (k, qp)" by (cases p)
  obtain c1 r1 where step: "checkQueryParameter env rid uv k qp = (c1, r1)"
    by (cases "checkQueryParameter env rid uv k qp")
  show ?case
  proof (cases r1)
    case (Inl a)
    with Cons.prems p step have "checkQueryParameter env rid uv k qp = (cs, Inl (x, r))"
      by simp
    then show ?thesis by (rule checkQueryParameter_exit)
  next
    case (Inr v)
    obtain c2 r2 where rest: "checkQueryParameters env rid uv ps (m(k \<mapsto> v)) = (c2, r2)"
      by (cases "checkQueryParameters env rid uv ps (m(k \<mapsto> v))")
    with Cons.prems p step Inr have "r2 = Inl (x, r)" by simp
    with rest show ?thesis using Cons.IH by blast
  qed
qed

subsection \<open>The dead branch\<close>

lemma ServeHTTP_resource_exit:
  "exit (ServeHTTP_resource env w req h rid ctx c (Some r) cti cto) \<noteq>
     ResourceInstantiationFailure"
  by (auto simp: ServeHTTP_resource_def Let_def split: prod.splits option.splits sum.splits
           dest: checkQueryParameters_exit)

text \<open>
  Claim C8. The branch of the dispatcher that answers 500 with ``Resource factory
  must instanciate a valid Resource'' is never taken: it tests for nil the matched
  resource that the branch of line 227 has already found not to be nil, and nothing
  assigns to it in between. Whatever the server, the collaborators and the request
  are, the dispatcher does not end by that return.
\<close>

theorem C8_instantiation_failure_unreachable:
  "exit (ServeHTTP s env writer request h) \<noteq> ResourceInstantiationFailure"
  by (simp add: ServeHTTP_def Let_def ServeHTTP_resource_exit split: prod.splits option.splits)

subsection \<open>Requests that find no route\<close>

text \<open>
  Claim C4. A request that is handed to the router (it is not the documentation
  URL) and for which the router returns no node is answered with status 400: by the
  ``Could not find route'' return when the router reports no error, and by the
  return that relays the router's own error otherwise. The dispatcher ends by a
  return, having written one status, and the only collaborator it has called is the
  router: no endpoint, parser or handler is consulted, and no handler state
  changes.
\<close>

theorem C4_route_not_found:
  assumes nodoc: "\<not> (documentationEndpointEnabled s \<and> documentationEndpointUrl s = URL_Path request)"
      and route: "router s (URL_Path request) = (None, routeVariables, err)"
  shows "WrittenStatus (response (ServeHTTP s env writer request h)) = WrittenStatus writer @ [400] \<and>
         calls (ServeHTTP s env writer request h) = [CallFindNodeByRoute (URL_Path request)] \<and>
         heap (ServeHTTP s env writer request h) = h \<and>
         exit (ServeHTTP s env writer request h) =
           (case err of None \<Rightarrow> RouteNotFound | Some e \<Rightarrow> RouteLookupFailed) \<and>
         WrittenBody (response (ServeHTTP s env writer request h)) =
           WrittenBody writer @
           (case err of
              None \<Rightarrow> ''['' @ requestIdOf s env @ ''] Could not find route for '' @ URL_Path request
            | Some e \<Rightarrow> e)"
  using route
  by (simp add: ServeHTTP_def Let_def nodoc renderResourceResult_status renderResourceResult_body
        StatusBadRequest_def split: option.splits)

theorem C4_route_not_found_witness:
  "router exampleServer ''/nowhere'' = (None, Map.empty, None) \<and>
   WrittenStatus (response (ServeHTTP exampleServer exampleCollaborators newWriter
       (getRequest ''/nowhere'' Map.empty) (\<lambda>_. 0))) = [400] \<and>
   calls (ServeHTTP exampleServer exampleCollaborators newWriter
       (getRequest ''/nowhere'' Map.empty) (\<lambda>_. 0)) = [CallFindNodeByRoute ''/nowhere''] \<and>
   exit (ServeHTTP exampleServer exampleCollaborators newWriter
       (getRequest ''/nowhere'' Map.empty) (\<lambda>_. 0)) = RouteNotFound \<and>
   WrittenBody (response (ServeHTTP exampleServer exampleCollaborators newWriter
       (getRequest ''/nowhere'' Map.empty) (\<lambda>_. 0))) = ''[o] Could not find route for /nowhere''"
proof -
  have nodoc: "\<not> (documentationEndpointEnabled exampleServer \<and>
      documentationEndpointUrl exampleServer = URL_Path (getRequest ''/nowhere'' Map.empty))"
    by (simp add: exampleServer_def)
  have route: "router exampleServer (URL_Path (getRequest ''/nowhere'' Map.empty)) =
      (None, Map.empty, None)"
    by (simp add: exampleServer_def exampleRouter_def getRequest_def)
  from C4_route_not_found [OF nodoc route, of exampleCollaborators newWriter "\<lambda>_. 0"] route
  show ?thesis
    by (simp add: requestIdOf_def exampleServer_def getRequest_def newWriter_def)
qed

subsection \<open>Requests without an acceptable media type\<close>

text \<open>
  Claim C5. When the Accept header of a request parses to a value without any
  accept element, \<^verbatim>\<open>FindMatchingResource\<close> is not called, no handler is
  executed and no handler state changes, whatever else the request holds. When the
  dispatcher gets as far as parsing that header (the route resolves to a node with
  an endpoint, and both headers parse without error), it ends by the ``No valid
  Accept header was given'' return, with status 400.
\<close>

theorem C5_no_accept_element:
  assumes parse: "newAcceptHeaderParser env (Get (RequestHeader request) ''Accept'') =
                    (acceptParser, aerr)"
      and none: "\<not> HasAcceptElement env acceptParser"
  shows "(\<forall>m. CallFindMatchingResource m \<notin> set (calls (ServeHTTP s env writer request h))) \<and>
         (\<forall>i c. CallExecute i c \<notin> set (calls (ServeHTTP s env writer request h))) \<and>
         heap (ServeHTTP s env writer request h) = h \<and>
         (\<not> (documentationEndpointEnabled s \<and> documentationEndpointUrl s = URL_Path request) \<and>
          router s (URL_Path request) = (Some node, routeVariables, None) \<and>
          GetEndpoint node = Some endp \<and>
          newContentTypeHeaderParser env (Get (RequestHeader request) ''Content-Type'') =
            (contentTypeParser, None) \<and>
          aerr = None \<longrightarrow>
          exit (ServeHTTP s env writer request h) = NoAcceptableMediaType \<and>
          WrittenStatus (response (ServeHTTP s env writer request h)) =
            WrittenStatus writer @ [400] \<and>
          WrittenBody (response (ServeHTTP s env writer request h)) =
            WrittenBody writer @ ''['' @ requestIdOf s env @ ''] No valid Accept header was given'')"
  using parse none
  by (simp add: ServeHTTP_def Let_def renderResourceResult_status renderResourceResult_body
        StatusBadRequest_def split: option.splits prod.splits)

theorem C5_no_accept_element_witness:
  "newAcceptHeaderParser exampleCollaborators (Get (RequestHeader noAcceptRequest) ''Accept'') =
     ([], None) \<and>
   \<not> HasAcceptElement exampleCollaborators [] \<and>
   (\<forall>m. CallFindMatchingResource m \<notin>
      set (calls (ServeHTTP exampleServer exampleCollaborators newWriter noAcceptRequest (\<lambda>_. 0)))) \<and>
   exit (ServeHTTP exampleServer exampleCollaborators newWriter noAcceptRequest (\<lambda>_. 0)) =
     NoAcceptableMediaType \<and>
   WrittenStatus (response
     (ServeHTTP exampleServer exampleCollaborators newWriter noAcceptRequest (\<lambda>_. 0))) = [400] \<and>
   WrittenBody (response
     (ServeHTTP exampleServer exampleCollaborators newWriter noAcceptRequest (\<lambda>_. 0))) =
     ''[o] No valid Accept header was given''"
proof -
  have parse: "newAcceptHeaderParser exampleCollaborators
      (Get (RequestHeader noAcceptRequest) ''Accept'') = ([], None)"
    by (simp add: exampleCollaborators_def noAcceptRequest_def Get_def)
  have none: "\<not> HasAcceptElement exampleCollaborators []"
    by (simp add: exampleCollaborators_def)
  have reach: "\<not> (documentationEndpointEnabled exampleServer \<and>
        documentationEndpointUrl exampleServer = URL_Path noAcceptRequest) \<and>
      router exampleServer (URL_Path noAcceptRequest) =
        (Some (Node (Some itemsEndpoint)), Map.empty, None) \<and>
      GetEndpoint (Node (Some itemsEndpoint)) = Some itemsEndpoint \<and>
      newContentTypeHeaderParser exampleCollaborators
        (Get (RequestHeader noAcceptRequest) ''Content-Type'') = ([], None) \<and>
      (None :: string option) = None"
    by (simp add: exampleServer_def exampleRouter_def noAcceptRequest_def
          exampleCollaborators_def Get_def)
  from C5_no_accept_element [OF parse none, of exampleServer newWriter "\<lambda>_. 0"
      "Node (Some itemsEndpoint)" Map.empty itemsEndpoint "[]"] reach parse none
  show ?thesis
    by (simp add: requestIdOf_def exampleServer_def newWriter_def)
qed

subsection \<open>Requests that reach a matching resource\<close>

text \<open>
  A request for which the first part of the dispatcher finds a node, an endpoint,
  well-formed headers and a matching resource is served by the second part.
\<close>

lemma ServeHTTP_matched:
  assumes nodoc: "\<not> (documentationEndpointEnabled s \<and> documentationEndpointUrl s = URL_Path request)"
      and route: "router s (URL_Path request) = (Some node, routeVariables, None)"
      and endp: "GetEndpoint node = Some endp"
      and ctype: "newContentTypeHeaderParser env (Get (RequestHeader request) ''Content-Type'') =
                    (contentTypeParser, None)"
      and accept: "newAcceptHeaderParser env (Get (RequestHeader request) ''Accept'') =
                    (acceptParser, None)"
      and has: "HasAcceptElement env acceptParser"
      and handlers: "GetResourceHandlers endp \<noteq> []"
      and matching: "FindMatchingResource env endp (Method request) contentTypeParser acceptParser =
                    (Some resource, contentTypeIn, contentTypeOut)"
  shows "ServeHTTP s env writer request h =
     ServeHTTP_resource env writer request h (requestIdOf s env)
       (emptyContext\<lparr>RouteVariables := routeVariables, ContextHeader := RequestHeader request,
          RequestId := (if debugEnableLogRequestIdentifier s then Some (requestIdOf s env) else None)\<rparr>)
       [CallFindNodeByRoute (URL_Path request), CallGetEndpoint,
        CallNewContentTypeHeaderParser (Get (RequestHeader request) ''Content-Type''),
        CallNewAcceptHeaderParser (Get (RequestHeader request) ''Accept''),
        CallHasAcceptElement, CallGetEndpoint, CallGetResourceHandlers,
        CallFindMatchingResource (Method request)]
       (Some resource) contentTypeIn contentTypeOut"
  by (simp add: ServeHTTP_def Let_def assms)

text \<open>
  Claim C6. A request that is matched to a resource handler with no input content
  type (\<^verbatim>\<open>FindMatchingResource\<close> returns nil for it), and whose body is read
  without error and is not empty, is answered by the ``Body is not allowed for this
  resource'' return with status 400; the handler is not executed and no handler
  state changes.
\<close>

theorem C6_body_not_allowed:
  assumes nodoc: "\<not> (documentationEndpointEnabled s \<and> documentationEndpointUrl s = URL_Path request)"
      and route: "router s (URL_Path request) = (Some node, routeVariables, None)"
      and endp: "GetEndpoint node = Some endp"
      and ctype: "newContentTypeHeaderParser env (Get (RequestHeader request) ''Content-Type'') =
                    (contentTypeParser, None)"
      and accept: "newAcceptHeaderParser env (Get (RequestHeader request) ''Accept'') =
                    (acceptParser, None)"
      and has: "HasAcceptElement env acceptParser"
      and handlers: "GetResourceHandlers endp \<noteq> []"
      and matching: "FindMatchingResource env endp (Method request) contentTypeParser acceptParser =
                    (Some resource, None, contentTypeOut)"
      and body: "RequestBody request = (bodyInBytes, None)"
      and nonempty: "bodyInBytes \<noteq> []"
  shows "exit (ServeHTTP s env writer request h) = BodyNotAllowed \<and>
         WrittenStatus (response (ServeHTTP s env writer request h)) = WrittenStatus writer @ [400] \<and>
         WrittenBody (response (ServeHTTP s env writer request h)) =
           WrittenBody writer @
           ''['' @ requestIdOf s env @ ''] Body is not allowed for this resource'' \<and>
         (\<forall>i c. CallExecute i c \<notin> set (calls (ServeHTTP s env writer request h))) \<and>
         heap (ServeHTTP s env writer request h) = h"
  unfolding ServeHTTP_matched [OF nodoc route endp ctype accept has handlers matching]
  using body nonempty
  by (simp add: ServeHTTP_resource_def Let_def renderResourceResult_status
        renderResourceResult_body StatusBadRequest_def)

lemma example_reaches_items:
  "\<not> (documentationEndpointEnabled exampleServer \<and> documentationEndpointUrl exampleServer = p)"
  "router exampleServer ''/items'' = (Some (Node (Some itemsEndpoint)), Map.empty, None)"
  "GetEndpoint (Node (Some itemsEndpoint)) = Some itemsEndpoint"
  "newContentTypeHeaderParser exampleCollaborators [] = ([], None)"
  "newAcceptHeaderParser exampleCollaborators ''application/json'' = ([''application/json''], None)"
  "HasAcceptElement exampleCollaborators [''application/json'']"
  "GetResourceHandlers itemsEndpoint \<noteq> []"
  "FindMatchingResource exampleCollaborators itemsEndpoint ''GET'' [] [''application/json''] =
     (Some itemsHandler, None, Some ''application/json'')"
  by (simp_all add: exampleServer_def exampleRouter_def exampleCollaborators_def
        itemsEndpoint_def GetResourceHandlers_def)

theorem C6_body_not_allowed_witness:
  "RequestBody bodyRequest = (''{}'', None) \<and>
   exit (ServeHTTP exampleServer exampleCollaborators newWriter bodyRequest (\<lambda>_. 0)) =
     BodyNotAllowed \<and>
   WrittenStatus (response
     (ServeHTTP exampleServer exampleCollaborators newWriter bodyRequest (\<lambda>_. 0))) = [400] \<and>
   WrittenBody (response
     (ServeHTTP exampleServer exampleCollaborators newWriter bodyRequest (\<lambda>_. 0))) =
     ''[o] Body is not allowed for this resource'' \<and>
   (\<forall>i c. CallExecute i c \<notin>
      set (calls (ServeHTTP exampleServer exampleCollaborators newWriter bodyRequest (\<lambda>_. 0))))"
proof -
  have hdr: "Get (RequestHeader bodyRequest) ''Content-Type'' = []"
      "Get (RequestHeader bodyRequest) ''Accept'' = ''application/json''"
      "URL_Path bodyRequest = ''/items''" "Method bodyRequest = ''GET''"
    by (simp_all add: bodyRequest_def Get_def)
  have body: "RequestBody bodyRequest = (''{}'', None)"
    by (simp add: bodyRequest_def)
  have nonempty: "''{}'' \<noteq> []"
    by simp
  from C6_body_not_allowed [of exampleServer bodyRequest "Node (Some itemsEndpoint)" Map.empty
      itemsEndpoint exampleCollaborators "[]" "[''application/json'']" itemsHandler
      "Some ''application/json''" "''{}''" newWriter "\<lambda>_. 0", OF _ _ _ _ _ _ _ _ body nonempty]
    example_reaches_items body
  show ?thesis
    by (simp add: hdr requestIdOf_def exampleServer_def newWriter_def)
qed

subsection \<open>Query parameters\<close>

lemma checkQueryParameterValue_Inr:
  "checkQueryParameterValue env rid k qp v = (cs, Inr v') \<Longrightarrow>
     v' = v \<and> IsValidType env qp v \<and>
     (\<forall>validator. FormatValidator qp = Some validator \<longrightarrow> IsValid validator v)"
  by (auto simp: checkQueryParameterValue_def split: if_splits option.splits)

lemma checkQueryParameter_Inr:
  "checkQueryParameter env rid uv k qp = (cs, Inr v) \<Longrightarrow>
     v = (if Get uv k = [] then DefaultValue qp else Get uv k) \<and> IsValidType env qp v \<and>
     (\<forall>validator. FormatValidator qp = Some validator \<longrightarrow> IsValid validator v)"
  by (auto simp: checkQueryParameter_def Let_def split: if_splits prod.splits
           dest: checkQueryParameterValue_Inr)

lemma checkQueryParameterValue_calls:
  "checkQueryParameterValue env rid k qp v = (cs, r) \<Longrightarrow> CallExecute i c \<notin> set cs"
  by (auto simp: checkQueryParameterValue_def split: if_splits option.splits)

lemma checkQueryParameter_calls:
  "checkQueryParameter env rid uv k qp = (cs, r) \<Longrightarrow> CallExecute i c \<notin> set cs"
  by (auto simp: checkQueryParameter_def Let_def split: if_splits prod.splits
           dest: checkQueryParameterValue_calls)

lemma checkQueryParameters_calls:
  "checkQueryParameters env rid uv ps m = (cs, r) \<Longrightarrow> CallExecute i c \<notin> set cs"
proof (induction ps arbitrary: m cs r)
  case Nil
  then show ?case by simp
next
  case (Cons p ps)
  obtain k qp where p: "p = (k, qp)" by (cases p)
  obtain c1 r1 where step: "checkQueryParameter env rid uv k qp = (c1, r1)"
    by (cases "checkQueryParameter env rid uv k qp")
  note c1 = checkQueryParameter_calls [OF step, of i c]
  show ?case
  proof (cases r1)
    case (Inl a)
    with Cons.prems p step c1 show ?thesis by auto
  next
    case (Inr v)
    obtain c2 r2 where rest: "checkQueryParameters env rid uv ps (m(k \<mapsto> v)) = (c2, r2)"
      by (cases "checkQueryParameters env rid uv ps (m(k \<mapsto> v))")
    with Cons.prems p step Inr have "cs = c1 @ c2" by auto
    with c1 Cons.IH [OF rest] show ?thesis by simp
  qed
qed

lemma ServeHTTP_resource_rejected:
  assumes body: "RequestBody request = (b, None)"
      and allowed: "cti \<noteq> None \<or> b = []"
      and loop: "checkQueryParameters env rid (URL_Query request) (QueryParameters r) Map.empty =
                   (cs, Inl (x, result))"
  shows "ServeHTTP_resource env w request h rid ctx c (Some r) cti cto =
     \<lparr>response = renderResourceResult w result ''text/plain'' rid,
      calls = c @ [CallReadAll] @ cs, exit = x, heap = h\<rparr>"
  using allowed by (auto simp: ServeHTTP_resource_def Let_def body loop)

lemma ServeHTTP_resource_executed:
  assumes body: "RequestBody request = (b, None)"
      and allowed: "cti \<noteq> None \<or> b = []"
      and loop: "checkQueryParameters env rid (URL_Query request) (QueryParameters r) Map.empty =
                   (cs, Inr m)"
      and run: "Execute env (Implementation r)
                  (ctx\<lparr>ContentTypeIn := cti, ContentTypeOut := Some t, ContextBody := Some b,
                       ContextQueryParameters := m\<rparr>) h = (result, h')"
  shows "ServeHTTP_resource env w request h rid ctx c (Some r) cti (Some t) =
     \<lparr>response = renderResourceResult w result t rid,
      calls = c @ [CallReadAll] @ cs @
        [CallExecute (Implementation r)
           (ctx\<lparr>ContentTypeIn := cti, ContentTypeOut := Some t, ContextBody := Some b,
                ContextQueryParameters := m\<rparr>)],
      exit = Executed, heap = h'\<rparr>"
  using allowed by (auto simp: ServeHTTP_resource_def Let_def body loop run)

text \<open>
  The loop against the specification: it accepts exactly the parameters the
  specification accepts, and the map it builds is the one the specification
  describes.
\<close>

lemma checkQueryParameter_accepted:
  "queryParameterAccepted env uv (k, qp) \<Longrightarrow>
     \<exists>cs. checkQueryParameter env rid uv k qp = (cs, Inr (queryParameterValue uv k qp))"
proof (cases "Get uv k = []")
  case True
  assume "queryParameterAccepted env uv (k, qp)"
  with True show ?thesis
    by (cases "FormatValidator qp")
       (simp_all add: queryParameterAccepted_def queryParameterValue_def checkQueryParameter_def
          checkQueryParameterValue_def Let_def)
next
  case False
  assume "queryParameterAccepted env uv (k, qp)"
  with False show ?thesis
    by (cases "FormatValidator qp")
       (simp_all add: queryParameterAccepted_def queryParameterValue_def checkQueryParameter_def
          checkQueryParameterValue_def Let_def)
qed

lemma checkQueryParameters_accepted_prefix:
  "\<forall>p \<in> set before. queryParameterAccepted env uv p \<Longrightarrow>
     \<exists>cs. checkQueryParameters env rid uv (before @ rest) m =
       (cs @ fst (checkQueryParameters env rid uv rest (storeQueryParameters uv before m)),
        snd (checkQueryParameters env rid uv rest (storeQueryParameters uv before m)))"
proof (induction before arbitrary: m)
  case Nil
  have "checkQueryParameters env rid uv ([] @ rest) m =
      ([] @ fst (checkQueryParameters env rid uv rest (storeQueryParameters uv [] m)),
       snd (checkQueryParameters env rid uv rest (storeQueryParameters uv [] m)))"
    by simp
  then show ?case by blast
next
  case (Cons p before)
  obtain k qp where p: "p = (k, qp)" by (cases p)
  from Cons.prems p have "queryParameterAccepted env uv (k, qp)" by simp
  from checkQueryParameter_accepted [OF this, of rid]
  obtain c1 where step: "checkQueryParameter env rid uv k qp = (c1, Inr (queryParameterValue uv k qp))"
    by blast
  from Cons.prems have "\<forall>p \<in> set before. queryParameterAccepted env uv p" by simp
  from Cons.IH [OF this, of "m(k \<mapsto> queryParameterValue uv k qp)"]
  obtain c2 where rest: "checkQueryParameters env rid uv (before @ rest)
        (m(k \<mapsto> queryParameterValue uv k qp)) =
      (c2 @ fst (checkQueryParameters env rid uv rest
                   (storeQueryParameters uv before (m(k \<mapsto> queryParameterValue uv k qp)))),
       snd (checkQueryParameters env rid uv rest
              (storeQueryParameters uv before (m(k \<mapsto> queryParameterValue uv k qp)))))"
    by blast
  have "checkQueryParameters env rid uv ((p # before) @ rest) m =
      ((c1 @ c2) @ fst (checkQueryParameters env rid uv rest (storeQueryParameters uv (p # before) m)),
       snd (checkQueryParameters env rid uv rest (storeQueryParameters uv (p # before) m)))"
    by (simp add: p step rest)
  then show ?case by blast
qed

lemma checkQueryParameters_all_accepted:
  assumes "\<forall>p \<in> set ps. queryParameterAccepted env uv p"
  shows "\<exists>cs. checkQueryParameters env rid uv ps m = (cs, Inr (storeQueryParameters uv ps m))"
  using checkQueryParameters_accepted_prefix [OF assms, of rid "[]" m] by simp

lemma storeQueryParameters_other:
  "k \<notin> fst ` set ps \<Longrightarrow> storeQueryParameters uv ps m k = m k"
  by (induction ps arbitrary: m) auto

lemma storeQueryParameters_dom:
  "dom (storeQueryParameters uv ps m) = dom m \<union> fst ` set ps"
proof (induction ps arbitrary: m)
  case Nil
  show ?case by simp
next
  case (Cons p ps)
  obtain k qp where p: "p = (k, qp)" by (cases p)
  have "dom (storeQueryParameters uv (p # ps) m) =
      dom (m(k \<mapsto> queryParameterValue uv k qp)) \<union> fst ` set ps"
    unfolding p storeQueryParameters.simps by (rule Cons.IH)
  also have "\<dots> = dom m \<union> fst ` set (p # ps)"
    by (simp add: p)
  finally show ?case .
qed

lemma storeQueryParameters_declared:
  "distinct (map fst ps) \<Longrightarrow> (k, qp) \<in> set ps \<Longrightarrow>
     storeQueryParameters uv ps m k = Some (queryParameterValue uv k qp)"
proof (induction ps arbitrary: m)
  case Nil
  then show ?case by simp
next
  case (Cons p ps)
  obtain k' qp' where p: "p = (k', qp')" by (cases p)
  show ?case
  proof (cases "(k, qp) = (k', qp')")
    case True
    with Cons.prems p have "k \<notin> fst ` set ps" by auto
    with True p show ?thesis
      by (simp add: storeQueryParameters_other)
  next
    case False
    with Cons.prems p have "(k, qp) \<in> set ps" "distinct (map fst ps)" by auto
    with Cons.IH p show ?thesis by simp
  qed
qed

lemma storeQueryParameters_present:
  "(k, qp) \<in> set ps \<Longrightarrow> Get uv k \<noteq> [] \<Longrightarrow> storeQueryParameters uv ps m k = Some (Get uv k)"
proof (induction ps arbitrary: m qp)
  case Nil
  then show ?case by simp
next
  case (Cons p ps)
  obtain k' qp' where p: "p = (k', qp')" by (cases p)
  show ?case
  proof (cases "k \<in> fst ` set ps")
    case True
    then obtain qp'' where "(k, qp'') \<in> set ps" by auto
    from Cons.IH [OF this Cons.prems(2)] p show ?thesis by simp
  next
    case False
    with Cons.prems p have "k' = k" by force
    with False Cons.prems p show ?thesis
      by (simp add: storeQueryParameters_other queryParameterValue_def)
  qed
qed


lemma checkQueryParameters_Inr_accepted:
  "checkQueryParameters env rid uv ps m0 = (cs, Inr m) \<Longrightarrow>
     (\<forall>p \<in> set ps. queryParameterAccepted env uv p) \<and> m = storeQueryParameters uv ps m0"
proof (induction ps arbitrary: m0 cs)
  case Nil
  then show ?case by simp
next
  case (Cons p ps)
  obtain k qp where p: "p = (k, qp)" by (cases p)
  obtain c1 r1 where step: "checkQueryParameter env rid uv k qp = (c1, r1)"
    by (cases "checkQueryParameter env rid uv k qp")
  show ?case
  proof (cases r1)
    case (Inl a)
    with Cons.prems p step show ?thesis by simp
  next
    case (Inr v)
    obtain c2 r2 where rest: "checkQueryParameters env rid uv ps (m0(k \<mapsto> v)) = (c2, r2)"
      by (cases "checkQueryParameters env rid uv ps (m0(k \<mapsto> v))")
    with Cons.prems p step Inr have r2: "r2 = Inr m" by simp
    note ih = Cons.IH [OF rest [unfolded r2]]
    note v = checkQueryParameter_Inr [OF step [unfolded Inr]]
    have val: "v = queryParameterValue uv k qp"
      using v by (simp add: queryParameterValue_def)
    have "queryParameterAccepted env uv (k, qp)"
      using v by (auto simp: queryParameterAccepted_def queryParameterValue_def split: option.splits)
    moreover have "\<forall>p \<in> set ps. queryParameterAccepted env uv p" using ih by blast
    moreover have "m = storeQueryParameters uv (p # ps) m0"
      unfolding p storeQueryParameters.simps val [symmetric] using ih by blast
    ultimately show ?thesis unfolding p by simp
  qed
qed

lemma ServeHTTP_parameter_rejected:
  assumes nodoc: "\<not> (documentationEndpointEnabled s \<and> documentationEndpointUrl s = URL_Path request)"
      and route: "router s (URL_Path request) = (Some node, routeVariables, None)"
      and endp: "GetEndpoint node = Some endp"
      and ctype: "newContentTypeHeaderParser env (Get (RequestHeader request) ''Content-Type'') =
                    (contentTypeParser, None)"
      and accept: "newAcceptHeaderParser env (Get (RequestHeader request) ''Accept'') =
                    (acceptParser, None)"
      and has: "HasAcceptElement env acceptParser"
      and handlers: "GetResourceHandlers endp \<noteq> []"
      and matching: "FindMatchingResource env endp (Method request) contentTypeParser acceptParser =
                    (Some resource, contentTypeIn, contentTypeOut)"
      and body: "RequestBody request = (bodyInBytes, None)"
      and allowed: "contentTypeIn \<noteq> None \<or> bodyInBytes = []"
      and declared: "QueryParameters resource = before @ (qpKey, qpObject) # after"
      and before: "\<forall>p \<in> set before. queryParameterAccepted env (URL_Query request) p"
      and step: "checkQueryParameter env (requestIdOf s env) (URL_Query request) qpKey qpObject =
                   (cs1, Inl (x, result))"
  shows "exit (ServeHTTP s env writer request h) = x \<and>
         response (ServeHTTP s env writer request h) =
           renderResourceResult writer result ''text/plain'' (requestIdOf s env) \<and>
         heap (ServeHTTP s env writer request h) = h \<and>
         (\<exists>cs. calls (ServeHTTP s env writer request h) = cs @ cs1) \<and>
         (cs1 \<noteq> [] \<longrightarrow> last (calls (ServeHTTP s env writer request h)) = last cs1) \<and>
         (\<forall>i c. CallExecute i c \<notin> set (calls (ServeHTTP s env writer request h)))"
proof -
  from checkQueryParameters_accepted_prefix [OF before, of "requestIdOf s env"
      "(qpKey, qpObject) # after" Map.empty]
  obtain cs where loop: "checkQueryParameters env (requestIdOf s env) (URL_Query request)
      (QueryParameters resource) Map.empty = (cs @ cs1, Inl (x, result))"
    by (auto simp: declared step)
  note run = ServeHTTP_resource_rejected [OF body allowed loop]
  have nc: "\<And>i c. CallExecute i c \<notin> set (cs @ cs1)"
    using checkQueryParameters_calls [OF loop] .
  have calls: "calls (ServeHTTP s env writer request h) =
      ([CallFindNodeByRoute (URL_Path request), CallGetEndpoint,
        CallNewContentTypeHeaderParser (Get (RequestHeader request) ''Content-Type''),
        CallNewAcceptHeaderParser (Get (RequestHeader request) ''Accept''),
        CallHasAcceptElement, CallGetEndpoint, CallGetResourceHandlers,
        CallFindMatchingResource (Method request), CallReadAll] @ cs) @ cs1"
    by (simp add: ServeHTTP_matched [OF nodoc route endp ctype accept has handlers matching] run)
  have "exit (ServeHTTP s env writer request h) = x"
    and "response (ServeHTTP s env writer request h) =
           renderResourceResult writer result ''text/plain'' (requestIdOf s env)"
    and "heap (ServeHTTP s env writer request h) = h"
    by (simp_all add: ServeHTTP_matched [OF nodoc route endp ctype accept has handlers matching] run)
  moreover have "\<exists>cs. calls (ServeHTTP s env writer request h) = cs @ cs1"
    using calls by blast
  moreover have "cs1 \<noteq> [] \<longrightarrow> last (calls (ServeHTTP s env writer request h)) = last cs1"
    unfolding calls by simp
  moreover have "\<forall>i c. CallExecute i c \<notin> set (calls (ServeHTTP s env writer request h))"
    unfolding calls using nc by simp
  ultimately show ?thesis by blast
qed

lemma ServeHTTP_parameters_accepted:
  assumes nodoc: "\<not> (documentationEndpointEnabled s \<and> documentationEndpointUrl s = URL_Path request)"
      and route: "router s (URL_Path request) = (Some node, routeVariables, None)"
      and endp: "GetEndpoint node = Some endp"
      and ctype: "newContentTypeHeaderParser env (Get (RequestHeader request) ''Content-Type'') =
                    (contentTypeParser, None)"
      and accept: "newAcceptHeaderParser env (Get (RequestHeader request) ''Accept'') =
                    (acceptParser, None)"
      and has: "HasAcceptElement env acceptParser"
      and handlers: "GetResourceHandlers endp \<noteq> []"
      and matching: "FindMatchingResource env endp (Method request) contentTypeParser acceptParser =
                    (Some resource, contentTypeIn, Some contentTypeOut)"
      and body: "RequestBody request = (bodyInBytes, None)"
      and allowed: "contentTypeIn \<noteq> None \<or> bodyInBytes = []"
      and all: "\<forall>p \<in> set (QueryParameters resource). queryParameterAccepted env (URL_Query request) p"
      and ctx: "ctx = emptyContext\<lparr>RouteVariables := routeVariables,
          ContextHeader := RequestHeader request,
          RequestId := (if debugEnableLogRequestIdentifier s then Some (requestIdOf s env) else None),
          ContentTypeIn := contentTypeIn, ContentTypeOut := Some contentTypeOut,
          ContextBody := Some bodyInBytes,
          ContextQueryParameters :=
            storeQueryParameters (URL_Query request) (QueryParameters resource) Map.empty\<rparr>"
  shows "exit (ServeHTTP s env writer request h) = Executed \<and>
         response (ServeHTTP s env writer request h) =
           renderResourceResult writer (fst (Execute env (Implementation resource) ctx h))
             contentTypeOut (requestIdOf s env) \<and>
         heap (ServeHTTP s env writer request h) =
           snd (Execute env (Implementation resource) ctx h) \<and>
         last (calls (ServeHTTP s env writer request h)) =
           CallExecute (Implementation resource) ctx"
proof -
  from checkQueryParameters_all_accepted [OF all, of "requestIdOf s env" Map.empty]
  obtain cs where loop: "checkQueryParameters env (requestIdOf s env) (URL_Query request)
      (QueryParameters resource) Map.empty =
      (cs, Inr (storeQueryParameters (URL_Query request) (QueryParameters resource) Map.empty))"
    by blast
  have ex: "Execute env (Implementation resource)
       (emptyContext\<lparr>RouteVariables := routeVariables, ContextHeader := RequestHeader request,
          RequestId := (if debugEnableLogRequestIdentifier s then Some (requestIdOf s env) else None),
          ContentTypeIn := contentTypeIn, ContentTypeOut := Some contentTypeOut,
          ContextBody := Some bodyInBytes,
          ContextQueryParameters :=
            storeQueryParameters (URL_Query request) (QueryParameters resource) Map.empty\<rparr>) h =
       (fst (Execute env (Implementation resource) ctx h),
        snd (Execute env (Implementation resource) ctx h))"
    unfolding ctx by simp
  show ?thesis
    by (simp add: ServeHTTP_matched [OF nodoc route endp ctype accept has handlers matching]
          ServeHTTP_resource_executed [OF body allowed loop ex] ctx)
qed

text \<open>The four returns of one iteration of the loop that reject the request.\<close>

lemma checkQueryParameter_invalid_kind:
  "Get uv k \<noteq> [] \<Longrightarrow> \<not> IsValidType env qp (Get uv k) \<Longrightarrow>
     checkQueryParameter env rid uv k qp =
       ([CallIsValidType k (Get uv k)],
        Inl (QueryParameterInvalidKind,
             \<lparr>HttpStatus = 400,
              Body = Some (''['' @ rid @ ''] Query parameter '' @ k @ '' must be of kind '' @
                           Kind qp)\<rparr>))"
  by (simp add: checkQueryParameter_def checkQueryParameterValue_def StatusBadRequest_def Let_def)

lemma checkQueryParameter_invalid_format:
  "Get uv k \<noteq> [] \<Longrightarrow> IsValidType env qp (Get uv k) \<Longrightarrow> FormatValidator qp = Some validator \<Longrightarrow>
     \<not> IsValid validator (Get uv k) \<Longrightarrow>
     checkQueryParameter env rid uv k qp =
       ([CallIsValidType k (Get uv k), CallIsValid k (Get uv k), CallGetErrorMessage k],
        Inl (QueryParameterInvalidFormat,
             \<lparr>HttpStatus = 400,
              Body = Some (''['' @ rid @ ''] Invalid Query Parameter, '' @
                           GetErrorMessage validator)\<rparr>))"
  by (simp add: checkQueryParameter_def checkQueryParameterValue_def StatusBadRequest_def Let_def)

lemma checkQueryParameter_invalid_default:
  "Get uv k = [] \<Longrightarrow> \<not> IsValidType env qp (DefaultValue qp) \<Longrightarrow>
     checkQueryParameter env rid uv k qp =
       ([CallIsValidType k (DefaultValue qp)],
        Inl (DefaultValueMisconfigured,
             \<lparr>HttpStatus = 400,
              Body = Some (''['' @ rid @ ''] Query parameter '' @ k @
                           '' default value must be of kind '' @ Kind qp)\<rparr>))"
  by (simp add: checkQueryParameter_def StatusBadRequest_def Let_def)

lemma checkQueryParameter_default_invalid_format:
  "Get uv k = [] \<Longrightarrow> IsValidType env qp (DefaultValue qp) \<Longrightarrow>
     FormatValidator qp = Some validator \<Longrightarrow> \<not> IsValid validator (DefaultValue qp) \<Longrightarrow>
     checkQueryParameter env rid uv k qp =
       ([CallIsValidType k (DefaultValue qp), CallIsValidType k (DefaultValue qp),
         CallIsValid k (DefaultValue qp), CallGetErrorMessage k],
        Inl (QueryParameterInvalidFormat,
             \<lparr>HttpStatus = 400,
              Body = Some (''['' @ rid @ ''] Invalid Query Parameter, '' @
                           GetErrorMessage validator)\<rparr>))"
  by (simp add: checkQueryParameter_def checkQueryParameterValue_def StatusBadRequest_def Let_def)

lemma ServeHTTP_parameter_not_accepted:
  assumes nodoc: "\<not> (documentationEndpointEnabled s \<and> documentationEndpointUrl s = URL_Path request)"
      and route: "router s (URL_Path request) = (Some node, routeVariables, None)"
      and endp: "GetEndpoint node = Some endp"
      and ctype: "newContentTypeHeaderParser env (Get (RequestHeader request) ''Content-Type'') =
                    (contentTypeParser, None)"
      and accept: "newAcceptHeaderParser env (Get (RequestHeader request) ''Accept'') =
                    (acceptParser, None)"
      and has: "HasAcceptElement env acceptParser"
      and handlers: "GetResourceHandlers endp \<noteq> []"
      and matching: "FindMatchingResource env endp (Method request) contentTypeParser acceptParser =
                    (Some resource, contentTypeIn, contentTypeOut)"
      and body: "RequestBody request = (bodyInBytes, None)"
      and allowed: "contentTypeIn \<noteq> None \<or> bodyInBytes = []"
      and declared: "(qpKey, qpObject) \<in> set (QueryParameters resource)"
      and failing: "\<not> queryParameterAccepted env (URL_Query request) (qpKey, qpObject)"
  shows "WrittenStatus (response (ServeHTTP s env writer request h)) = WrittenStatus writer @ [400] \<and>
         exit (ServeHTTP s env writer request h) \<in>
           {DefaultValueMisconfigured, QueryParameterInvalidKind, QueryParameterInvalidFormat} \<and>
         (\<forall>i c. CallExecute i c \<notin> set (calls (ServeHTTP s env writer request h))) \<and>
         heap (ServeHTTP s env writer request h) = h"
proof -
  obtain cs r where loop: "checkQueryParameters env (requestIdOf s env) (URL_Query request)
      (QueryParameters resource) Map.empty = (cs, r)"
    by (cases "checkQueryParameters env (requestIdOf s env) (URL_Query request)
      (QueryParameters resource) Map.empty")
  have "\<exists>x result. r = Inl (x, result)"
  proof (cases r)
    case (Inl a)
    then show ?thesis by (cases a) simp
  next
    case (Inr m)
    from checkQueryParameters_Inr_accepted [OF loop [unfolded Inr]] declared failing
    show ?thesis by blast
  qed
  then obtain x result where r: "r = Inl (x, result)" by blast
  note run = ServeHTTP_resource_rejected [OF body allowed loop [unfolded r]]
  note st = checkQueryParameters_exit [OF loop [unfolded r]]
  note nc = checkQueryParameters_calls [OF loop [unfolded r]]
  have "WrittenStatus (response (ServeHTTP s env writer request h)) = WrittenStatus writer @ [400]"
    using st
    by (simp add: ServeHTTP_matched [OF nodoc route endp ctype accept has handlers matching] run
          renderResourceResult_status StatusBadRequest_def)
  moreover have "exit (ServeHTTP s env writer request h) \<in>
           {DefaultValueMisconfigured, QueryParameterInvalidKind, QueryParameterInvalidFormat}"
    using st
    by (simp add: ServeHTTP_matched [OF nodoc route endp ctype accept has handlers matching] run)
  moreover have "heap (ServeHTTP s env writer request h) = h"
    by (simp add: ServeHTTP_matched [OF nodoc route endp ctype accept has handlers matching] run)
  moreover have "\<forall>i c. CallExecute i c \<notin> set (calls (ServeHTTP s env writer request h))"
    using nc
    by (simp add: ServeHTTP_matched [OF nodoc route endp ctype accept has handlers matching] run)
  ultimately show ?thesis by blast
qed

text \<open>The concrete server with the echoing handler.\<close>

lemma echo_reaches:
  "\<not> (documentationEndpointEnabled exampleServer \<and> documentationEndpointUrl exampleServer = p)"
  "router exampleServer ''/items'' = (Some (Node (Some itemsEndpoint)), Map.empty, None)"
  "router exampleServer ''/reports'' =
     (Some (Node (Some \<lparr>route = ''/reports'', resourceHandlers = [reportsHandler]\<rparr>)),
      Map.empty, None)"
  "GetEndpoint (Node (Some e)) = Some e"
  "newContentTypeHeaderParser echoCollaborators [] = ([], None)"
  "newAcceptHeaderParser echoCollaborators ''application/json'' = ([''application/json''], None)"
  "HasAcceptElement echoCollaborators [''application/json'']"
  "GetResourceHandlers itemsEndpoint \<noteq> []"
  "GetResourceHandlers \<lparr>route = ''/reports'', resourceHandlers = [reportsHandler]\<rparr> \<noteq> []"
  "FindMatchingResource echoCollaborators itemsEndpoint ''GET'' [] [''application/json''] =
     (Some itemsHandler, None, Some ''application/json'')"
  "FindMatchingResource echoCollaborators \<lparr>route = ''/reports'', resourceHandlers = [reportsHandler]\<rparr>
     ''GET'' [] [''application/json''] = (Some reportsHandler, None, Some ''application/json'')"
  by (simp_all add: exampleServer_def exampleRouter_def exampleCollaborators_def
        echoCollaborators_def itemsEndpoint_def GetResourceHandlers_def)

lemma getRequest_reads:
  "Get (RequestHeader (getRequest p uv)) ''Content-Type'' = []"
  "Get (RequestHeader (getRequest p uv)) ''Accept'' = ''application/json''"
  "URL_Path (getRequest p uv) = p" "Method (getRequest p uv) = ''GET''"
  "URL_Query (getRequest p uv) = uv" "RequestBody (getRequest p uv) = ([], None)"
  "RequestHeader (getRequest p uv) = [''Accept'' \<mapsto> [''application/json'']]"
  by (simp_all add: getRequest_def Get_def)

lemmas echo_defs = echoCollaborators_def exampleCollaborators_def exampleServer_def
  itemsHandler_def reportsHandler_def limitValidator_def isDecimal_def newWriter_def
  queryParameterAccepted_def queryParameterValue_def Get_def requestIdOf_def
  renderResourceResult_status renderResourceResult_body emptyContext_def

text \<open>
  Claim C7. Take a request that is matched to a resource handler and whose body is
  accepted, and a query parameter \<open>qpKey\<close> declared by the handler; \<open>before\<close> are
  the parameters the loop visits before it and \<open>after\<close> those it visits after it.
  A parameter is present when the value read from the query string is not empty
  (an empty value is replaced by the default, claim C9).

  \<^item> Whatever the iteration order: when the value of the parameter is not accepted,
    the dispatcher answers with status 400 by one of the three returns of the loop,
    the handler is not executed and no handler state changes.
  \<^item> When the parameter is present, the parameters before it are accepted and its
    value fails the kind check, the dispatcher returns by the invalid-kind return:
    the response has status 400 and the message
    \<^verbatim>\<open>[id] Query parameter <name> must be of kind <kind>\<close>, the kind check is
    the last call made, so the format validator is not applied, and the handler is
    not executed.
  \<^item> When the value passes the kind check and the format validator rejects it, the
    dispatcher returns by the invalid-format return: the response has status 400
    and its message ends with the validator's own error message; the calls end
    with the kind check, the validator and the request for its message, in this
    order, and the handler is not executed.
  \<^item> When every declared parameter is accepted, the handler is executed, as the
    last call, on the context \<open>ctx\<close> built from the request, whose query
    parameters are the stored mapping; the response and the handler state after
    the request are those of this execution. The mapping has exactly the declared
    names, and each present parameter is stored under its name as the very string
    read from the query string.
\<close>

theorem C7_query_parameter_validation:
  assumes nodoc: "\<not> (documentationEndpointEnabled s \<and> documentationEndpointUrl s = URL_Path request)"
      and route: "router s (URL_Path request) = (Some node, routeVariables, None)"
      and endp: "GetEndpoint node = Some endp"
      and ctype: "newContentTypeHeaderParser env (Get (RequestHeader request) ''Content-Type'') =
                    (contentTypeParser, None)"
      and accept: "newAcceptHeaderParser env (Get (RequestHeader request) ''Accept'') =
                    (acceptParser, None)"
      and has: "HasAcceptElement env acceptParser"
      and handlers: "GetResourceHandlers endp \<noteq> []"
      and matching: "FindMatchingResource env endp (Method request) contentTypeParser acceptParser =
                    (Some resource, contentTypeIn, Some contentTypeOut)"
      and body: "RequestBody request = (bodyInBytes, None)"
      and allowed: "contentTypeIn \<noteq> None \<or> bodyInBytes = []"
      and declared: "QueryParameters resource = before @ (qpKey, qpObject) # after"
      and ctx: "ctx = emptyContext\<lparr>RouteVariables := routeVariables,
          ContextHeader := RequestHeader request,
          RequestId := (if debugEnableLogRequestIdentifier s then Some (requestIdOf s env) else None),
          ContentTypeIn := contentTypeIn, ContentTypeOut := Some contentTypeOut,
          ContextBody := Some bodyInBytes,
          ContextQueryParameters :=
            storeQueryParameters (URL_Query request) (QueryParameters resource) Map.empty\<rparr>"
  shows
    "(\<not> queryParameterAccepted env (URL_Query request) (qpKey, qpObject) \<longrightarrow>
        WrittenStatus (response (ServeHTTP s env writer request h)) = WrittenStatus writer @ [400] \<and>
        exit (ServeHTTP s env writer request h) \<in>
          {DefaultValueMisconfigured, QueryParameterInvalidKind, QueryParameterInvalidFormat} \<and>
        (\<forall>i c. CallExecute i c \<notin> set (calls (ServeHTTP s env writer request h))) \<and>
        heap (ServeHTTP s env writer request h) = h) \<and>
     (Get (URL_Query request) qpKey \<noteq> [] \<and>
      (\<forall>p \<in> set before. queryParameterAccepted env (URL_Query request) p) \<and>
      \<not> IsValidType env qpObject (Get (URL_Query request) qpKey) \<longrightarrow>
        exit (ServeHTTP s env writer request h) = QueryParameterInvalidKind \<and>
        response (ServeHTTP s env writer request h) =
          renderResourceResult writer
            \<lparr>HttpStatus = 400,
             Body = Some (''['' @ requestIdOf s env @ ''] Query parameter '' @ qpKey @
                          '' must be of kind '' @ Kind qpObject)\<rparr>
            ''text/plain'' (requestIdOf s env) \<and>
        WrittenStatus (response (ServeHTTP s env writer request h)) = WrittenStatus writer @ [400] \<and>
        WrittenBody (response (ServeHTTP s env writer request h)) =
          WrittenBody writer @ ''['' @ requestIdOf s env @ ''] Query parameter '' @ qpKey @
            '' must be of kind '' @ Kind qpObject \<and>
        last (calls (ServeHTTP s env writer request h)) =
          CallIsValidType qpKey (Get (URL_Query request) qpKey) \<and>
        (\<forall>i c. CallExecute i c \<notin> set (calls (ServeHTTP s env writer request h))) \<and>
        heap (ServeHTTP s env writer request h) = h) \<and>
     (Get (URL_Query request) qpKey \<noteq> [] \<and>
      (\<forall>p \<in> set before. queryParameterAccepted env (URL_Query request) p) \<and>
      IsValidType env qpObject (Get (URL_Query request) qpKey) \<and>
      FormatValidator qpObject = Some validator \<and>
      \<not> IsValid validator (Get (URL_Query request) qpKey) \<longrightarrow>
        exit (ServeHTTP s env writer request h) = QueryParameterInvalidFormat \<and>
        response (ServeHTTP s env writer request h) =
          renderResourceResult writer
            \<lparr>HttpStatus = 400,
             Body = Some (''['' @ requestIdOf s env @ ''] Invalid Query Parameter, '' @
                          GetErrorMessage validator)\<rparr>
            ''text/plain'' (requestIdOf s env) \<and>
        WrittenStatus (response (ServeHTTP s env writer request h)) = WrittenStatus writer @ [400] \<and>
        WrittenBody (response (ServeHTTP s env writer request h)) =
          WrittenBody writer @ ''['' @ requestIdOf s env @ ''] Invalid Query Parameter, '' @
            GetErrorMessage validator \<and>
        (\<exists>cs. calls (ServeHTTP s env writer request h) =
           cs @ [CallIsValidType qpKey (Get (URL_Query request) qpKey),
                 CallIsValid qpKey (Get (URL_Query request) qpKey), CallGetErrorMessage qpKey]) \<and>
        (\<forall>i c. CallExecute i c \<notin> set (calls (ServeHTTP s env writer request h))) \<and>
        heap (ServeHTTP s env writer request h) = h) \<and>
     ((\<forall>p \<in> set (QueryParameters resource). queryParameterAccepted env (URL_Query request) p) \<longrightarrow>
        exit (ServeHTTP s env writer request h) = Executed \<and>
        last (calls (ServeHTTP s env writer request h)) =
          CallExecute (Implementation resource) ctx \<and>
        response (ServeHTTP s env writer request h) =
          renderResourceResult writer (fst (Execute env (Implementation resource) ctx h))
            contentTypeOut (requestIdOf s env) \<and>
        heap (ServeHTTP s env writer request h) =
          snd (Execute env (Implementation resource) ctx h) \<and>
        dom (ContextQueryParameters ctx) = fst ` set (QueryParameters resource) \<and>
        (\<forall>(k, qp) \<in> set (QueryParameters resource).
           Get (URL_Query request) k \<noteq> [] \<longrightarrow>
           ContextQueryParameters ctx k = Some (Get (URL_Query request) k)))"
  apply (rule conjI)
   apply (rule impI)
  subgoal premises a
    using ServeHTTP_parameter_not_accepted [where writer = writer and h = h,
        OF nodoc route endp ctype accept has handlers matching body allowed _ a]
    by (simp add: declared)
  apply (rule conjI)
   apply (rule impI)
  subgoal premises a
  proof -
    note step = checkQueryParameter_invalid_kind [OF a [THEN conjunct1]
        a [THEN conjunct2, THEN conjunct2], of "requestIdOf s env"]
    note run = ServeHTTP_parameter_rejected [where writer = writer and h = h,
        OF nodoc route endp ctype accept has handlers matching
        body allowed declared a [THEN conjunct2, THEN conjunct1] step]
    show ?thesis
      using run by (simp add: renderResourceResult_status renderResourceResult_body)
  qed
  apply (rule conjI)
   apply (rule impI)
  subgoal premises a
  proof -
    note step = checkQueryParameter_invalid_format [OF a [THEN conjunct1]
        a [THEN conjunct2, THEN conjunct2, THEN conjunct1]
        a [THEN conjunct2, THEN conjunct2, THEN conjunct2, THEN conjunct1]
        a [THEN conjunct2, THEN conjunct2, THEN conjunct2, THEN conjunct2],
        of "requestIdOf s env"]
    note run = ServeHTTP_parameter_rejected [where writer = writer and h = h,
        OF nodoc route endp ctype accept has handlers matching
        body allowed declared a [THEN conjunct2, THEN conjunct1] step]
    show ?thesis
      using run by (simp add: renderResourceResult_status renderResourceResult_body)
  qed
  apply (rule impI)
  subgoal premises a
  proof -
    note run = ServeHTTP_parameters_accepted [where writer = writer and h = h,
        OF nodoc route endp ctype accept has handlers matching body allowed a ctx]
    have qps: "ContextQueryParameters ctx =
        storeQueryParameters (URL_Query request) (QueryParameters resource) Map.empty"
      by (simp add: ctx)
    have "dom (ContextQueryParameters ctx) = fst ` set (QueryParameters resource)"
      by (simp add: qps storeQueryParameters_dom)
    moreover have "\<forall>(k, qp) \<in> set (QueryParameters resource).
           Get (URL_Query request) k \<noteq> [] \<longrightarrow>
           ContextQueryParameters ctx k = Some (Get (URL_Query request) k)"
      unfolding qps using storeQueryParameters_present by fastforce
    ultimately show ?thesis
      using run by blast
  qed
  done

theorem C7_query_parameter_validation_witness:
  "exit (ServeHTTP exampleServer echoCollaborators newWriter
     (getRequest ''/items'' [''limit'' \<mapsto> [''abc'']]) (\<lambda>_. 0)) = QueryParameterInvalidKind \<and>
   WrittenStatus (response (ServeHTTP exampleServer echoCollaborators newWriter
     (getRequest ''/items'' [''limit'' \<mapsto> [''abc'']]) (\<lambda>_. 0))) = [400] \<and>
   WrittenBody (response (ServeHTTP exampleServer echoCollaborators newWriter
     (getRequest ''/items'' [''limit'' \<mapsto> [''abc'']]) (\<lambda>_. 0))) =
     ''[o] Query parameter limit must be of kind int'' \<and>
   exit (ServeHTTP exampleServer echoCollaborators newWriter
     (getRequest ''/items'' [''limit'' \<mapsto> [''12345'']]) (\<lambda>_. 0)) = QueryParameterInvalidFormat \<and>
   WrittenStatus (response (ServeHTTP exampleServer echoCollaborators newWriter
     (getRequest ''/items'' [''limit'' \<mapsto> [''12345'']]) (\<lambda>_. 0))) = [400] \<and>
   WrittenBody (response (ServeHTTP exampleServer echoCollaborators newWriter
     (getRequest ''/items'' [''limit'' \<mapsto> [''12345'']]) (\<lambda>_. 0))) =
     ''[o] Invalid Query Parameter, limit is too large'' \<and>
   exit (ServeHTTP exampleServer echoCollaborators newWriter
     (getRequest ''/items'' [''limit'' \<mapsto> [''25'']]) (\<lambda>_. 0)) = Executed \<and>
   WrittenStatus (response (ServeHTTP exampleServer echoCollaborators newWriter
     (getRequest ''/items'' [''limit'' \<mapsto> [''25'']]) (\<lambda>_. 0))) = [200] \<and>
   WrittenBody (response (ServeHTTP exampleServer echoCollaborators newWriter
     (getRequest ''/items'' [''limit'' \<mapsto> [''25'']]) (\<lambda>_. 0))) = ''25''"
proof -
  have allowed: "(None :: string option) \<noteq> None \<or> ([] :: string) = []"
    by simp
  have declared: "QueryParameters itemsHandler =
      [] @ (''limit'', \<lparr>Kind = ''int'', DefaultValue = ''10'',
                       FormatValidator = Some limitValidator\<rparr>) # []"
    by (simp add: itemsHandler_def)
  note run = C7_query_parameter_validation [where s = exampleServer and env = echoCollaborators
      and node = "Node (Some itemsEndpoint)" and routeVariables = Map.empty
      and endp = itemsEndpoint and contentTypeParser = "[]"
      and acceptParser = "[''application/json'']" and resource = itemsHandler
      and contentTypeIn = None and contentTypeOut = "''application/json''"
      and bodyInBytes = "[]" and writer = newWriter and h = "\<lambda>_. 0"
      and validator = limitValidator,
      OF _ _ _ _ _ _ _ _ _ allowed declared refl]
  from run [where request = "getRequest ''/items'' [''limit'' \<mapsto> [''abc'']]"] echo_reaches
  have kind: "exit (ServeHTTP exampleServer echoCollaborators newWriter
       (getRequest ''/items'' [''limit'' \<mapsto> [''abc'']]) (\<lambda>_. 0)) = QueryParameterInvalidKind \<and>
     WrittenStatus (response (ServeHTTP exampleServer echoCollaborators newWriter
       (getRequest ''/items'' [''limit'' \<mapsto> [''abc'']]) (\<lambda>_. 0))) = [400] \<and>
     WrittenBody (response (ServeHTTP exampleServer echoCollaborators newWriter
       (getRequest ''/items'' [''limit'' \<mapsto> [''abc'']]) (\<lambda>_. 0))) =
       ''[o] Query parameter limit must be of kind int''"
    by (simp add: getRequest_reads echo_defs)
  from run [where request = "getRequest ''/items'' [''limit'' \<mapsto> [''12345'']]"] echo_reaches
  have format: "exit (ServeHTTP exampleServer echoCollaborators newWriter
       (getRequest ''/items'' [''limit'' \<mapsto> [''12345'']]) (\<lambda>_. 0)) = QueryParameterInvalidFormat \<and>
     WrittenStatus (response (ServeHTTP exampleServer echoCollaborators newWriter
       (getRequest ''/items'' [''limit'' \<mapsto> [''12345'']]) (\<lambda>_. 0))) = [400] \<and>
     WrittenBody (response (ServeHTTP exampleServer echoCollaborators newWriter
       (getRequest ''/items'' [''limit'' \<mapsto> [''12345'']]) (\<lambda>_. 0))) =
       ''[o] Invalid Query Parameter, limit is too large''"
    by (simp add: getRequest_reads echo_defs)
  from run [where request = "getRequest ''/items'' [''limit'' \<mapsto> [''25'']]"] echo_reaches
  have delivered: "exit (ServeHTTP exampleServer echoCollaborators newWriter
       (getRequest ''/items'' [''limit'' \<mapsto> [''25'']]) (\<lambda>_. 0)) = Executed \<and>
     WrittenStatus (response (ServeHTTP exampleServer echoCollaborators newWriter
       (getRequest ''/items'' [''limit'' \<mapsto> [''25'']]) (\<lambda>_. 0))) = [200] \<and>
     WrittenBody (response (ServeHTTP exampleServer echoCollaborators newWriter
       (getRequest ''/items'' [''limit'' \<mapsto> [''25'']]) (\<lambda>_. 0))) = ''25''"
    by (simp add: getRequest_reads echo_defs)
  from kind format delivered show ?thesis
    by blast
qed

subsection \<open>Empty values in the query string\<close>

text \<open>The dispatcher reads the query string through \<^verbatim>\<open>Get\<close> only.\<close>

lemma Get_absent: "Get (uv(k := None)) k = []"
  by (simp add: Get_def)

lemma Get_empty_first: "Get (uv(k \<mapsto> [] # vs)) k = []"
  by (simp add: Get_def)

lemma Get_other: "k' \<noteq> k \<Longrightarrow> Get (uv(k := x)) k' = Get uv k'"
  by (simp add: Get_def)

lemma checkQueryParameter_Get_cong:
  "Get uv k = Get uv' k \<Longrightarrow>
     checkQueryParameter env rid uv k qp = checkQueryParameter env rid uv' k qp"
  by (simp add: checkQueryParameter_def)

lemma checkQueryParameters_Get_cong:
  "(\<And>k. Get uv k = Get uv' k) \<Longrightarrow>
     checkQueryParameters env rid uv ps m = checkQueryParameters env rid uv' ps m"
proof (induction ps arbitrary: m)
  case Nil
  show ?case by simp
next
  case (Cons p ps)
  obtain k qp where p: "p = (k, qp)" by (cases p)
  have step: "checkQueryParameter env rid uv k qp = checkQueryParameter env rid uv' k qp"
    using Cons.prems by (rule checkQueryParameter_Get_cong)
  have rest: "\<And>m. checkQueryParameters env rid uv ps m = checkQueryParameters env rid uv' ps m"
    using Cons.IH Cons.prems by blast
  show ?case by (simp add: p step rest)
qed

lemma ServeHTTP_resource_Get_cong:
  assumes "\<And>k. Get uv k = Get uv' k"
  shows "ServeHTTP_resource env w (request\<lparr>URL_Query := uv\<rparr>) h rid ctx c r cti cto =
         ServeHTTP_resource env w (request\<lparr>URL_Query := uv'\<rparr>) h rid ctx c r cti cto"
  by (simp add: ServeHTTP_resource_def Let_def checkQueryParameters_Get_cong [OF assms]
        cong: prod.case_cong option.case_cong if_cong)

lemma ServeHTTP_Get_cong:
  assumes "\<And>k. Get uv k = Get uv' k"
  shows "ServeHTTP s env w (request\<lparr>URL_Query := uv\<rparr>) h =
         ServeHTTP s env w (request\<lparr>URL_Query := uv'\<rparr>) h"
  by (simp add: ServeHTTP_def Let_def ServeHTTP_resource_Get_cong [OF assms]
        cong: prod.case_cong option.case_cong if_cong)

text \<open>
  Claim C9. A query string that gives a parameter with an empty first value is
  served exactly like the query string without the parameter, whatever the server,
  the collaborators and the rest of the request are. For a request that is matched
  to a resource handler and whose body is accepted, and a declared parameter
  \<open>qpKey\<close> for which the value read from the query string is the empty string
  (the parameter is absent, or given as the empty string), the default value is
  substituted and then checked:

  \<^item> when the parameters before it are accepted and the default fails the kind
    check, the dispatcher returns by the misconfigured-default return, with status
    400 and the message
    \<^verbatim>\<open>[id] Query parameter <name> default value must be of kind <kind>\<close>; the
    kind check of the default is the last call made and the handler is not
    executed;
  \<^item> when the default passes the kind check and the format validator rejects it,
    the dispatcher returns by the invalid-format return with status 400 and the
    validator's message, after checking the kind of the default twice;
  \<^item> when every declared parameter is accepted and no name is declared twice, the
    handler is executed on the context \<open>ctx\<close>, in which the parameter has its
    default value.
\<close>

theorem C9_empty_value_is_absent:
  fixes s :: "'impl Server" and env :: "('impl, 'ctp, 'ap, 'h) collaborators"
  assumes nodoc: "\<not> (documentationEndpointEnabled s \<and> documentationEndpointUrl s = URL_Path request)"
      and route: "router s (URL_Path request) = (Some node, routeVariables, None)"
      and endp: "GetEndpoint node = Some endp"
      and ctype: "newContentTypeHeaderParser env (Get (RequestHeader request) ''Content-Type'') =
                    (contentTypeParser, None)"
      and accept: "newAcceptHeaderParser env (Get (RequestHeader request) ''Accept'') =
                    (acceptParser, None)"
      and has: "HasAcceptElement env acceptParser"
      and handlers: "GetResourceHandlers endp \<noteq> []"
      and matching: "FindMatchingResource env endp (Method request) contentTypeParser acceptParser =
                    (Some resource, contentTypeIn, Some contentTypeOut)"
      and body: "RequestBody request = (bodyInBytes, None)"
      and allowed: "contentTypeIn \<noteq> None \<or> bodyInBytes = []"
      and declared: "QueryParameters resource = before @ (qpKey, qpObject) # after"
      and ctx: "ctx = emptyContext\<lparr>RouteVariables := routeVariables,
          ContextHeader := RequestHeader request,
          RequestId := (if debugEnableLogRequestIdentifier s then Some (requestIdOf s env) else None),
          ContentTypeIn := contentTypeIn, ContentTypeOut := Some contentTypeOut,
          ContextBody := Some bodyInBytes,
          ContextQueryParameters :=
            storeQueryParameters (URL_Query request) (QueryParameters resource) Map.empty\<rparr>"
      and empty: "Get (URL_Query request) qpKey = []"
  shows
    "(\<forall>(s' :: 'impl Server) (env' :: ('impl, 'ctp, 'ap, 'h) collaborators)
         writer' request' urlValues vs h'.
        ServeHTTP s' env' writer' (request'\<lparr>URL_Query := urlValues(qpKey \<mapsto> [] # vs)\<rparr>) h' =
        ServeHTTP s' env' writer' (request'\<lparr>URL_Query := urlValues(qpKey := None)\<rparr>) h') \<and>
     ((\<forall>p \<in> set before. queryParameterAccepted env (URL_Query request) p) \<and>
      \<not> IsValidType env qpObject (DefaultValue qpObject) \<longrightarrow>
        exit (ServeHTTP s env writer request h) = DefaultValueMisconfigured \<and>
        response (ServeHTTP s env writer request h) =
          renderResourceResult writer
            \<lparr>HttpStatus = 400,
             Body = Some (''['' @ requestIdOf s env @ ''] Query parameter '' @ qpKey @
                          '' default value must be of kind '' @ Kind qpObject)\<rparr>
            ''text/plain'' (requestIdOf s env) \<and>
        WrittenStatus (response (ServeHTTP s env writer request h)) = WrittenStatus writer @ [400] \<and>
        WrittenBody (response (ServeHTTP s env writer request h)) =
          WrittenBody writer @ ''['' @ requestIdOf s env @ ''] Query parameter '' @ qpKey @
            '' default value must be of kind '' @ Kind qpObject \<and>
        last (calls (ServeHTTP s env writer request h)) =
          CallIsValidType qpKey (DefaultValue qpObject) \<and>
        (\<forall>i c. CallExecute i c \<notin> set (calls (ServeHTTP s env writer request h))) \<and>
        heap (ServeHTTP s env writer request h) = h) \<and>
     ((\<forall>p \<in> set before. queryParameterAccepted env (URL_Query request) p) \<and>
      IsValidType env qpObject (DefaultValue qpObject) \<and>
      FormatValidator qpObject = Some validator \<and>
      \<not> IsValid validator (DefaultValue qpObject) \<longrightarrow>
        exit (ServeHTTP s env writer request h) = QueryParameterInvalidFormat \<and>
        WrittenStatus (response (ServeHTTP s env writer request h)) = WrittenStatus writer @ [400] \<and>
        WrittenBody (response (ServeHTTP s env writer request h)) =
          WrittenBody writer @ ''['' @ requestIdOf s env @ ''] Invalid Query Parameter, '' @
            GetErrorMessage validator \<and>
        (\<exists>cs. calls (ServeHTTP s env writer request h) =
           cs @ [CallIsValidType qpKey (DefaultValue qpObject),
                 CallIsValidType qpKey (DefaultValue qpObject),
                 CallIsValid qpKey (DefaultValue qpObject), CallGetErrorMessage qpKey]) \<and>
        (\<forall>i c. CallExecute i c \<notin> set (calls (ServeHTTP s env writer request h))) \<and>
        heap (ServeHTTP s env writer request h) = h) \<and>
     ((\<forall>p \<in> set (QueryParameters resource). queryParameterAccepted env (URL_Query request) p) \<and>
      distinct (map fst (QueryParameters resource)) \<longrightarrow>
        exit (ServeHTTP s env writer request h) = Executed \<and>
        last (calls (ServeHTTP s env writer request h)) =
          CallExecute (Implementation resource) ctx \<and>
        response (ServeHTTP s env writer request h) =
          renderResourceResult writer (fst (Execute env (Implementation resource) ctx h))
            contentTypeOut (requestIdOf s env) \<and>
        heap (ServeHTTP s env writer request h) =
          snd (Execute env (Implementation resource) ctx h) \<and>
        ContextQueryParameters ctx qpKey = Some (DefaultValue qpObject))"
  apply (rule conjI)
  subgoal
    by (intro allI, rule ServeHTTP_Get_cong) (simp add: Get_def)
  apply (rule conjI)
   apply (rule impI)
  subgoal premises a
  proof -
    note step = checkQueryParameter_invalid_default [OF empty a [THEN conjunct2],
        of "requestIdOf s env"]
    note run = ServeHTTP_parameter_rejected [where writer = writer and h = h,
        OF nodoc route endp ctype accept has handlers matching
        body allowed declared a [THEN conjunct1] step]
    show ?thesis
      using run by (simp add: renderResourceResult_status renderResourceResult_body)
  qed
  apply (rule conjI)
   apply (rule impI)
  subgoal premises a
  proof -
    note step = checkQueryParameter_default_invalid_format [OF empty
        a [THEN conjunct2, THEN conjunct1]
        a [THEN conjunct2, THEN conjunct2, THEN conjunct1]
        a [THEN conjunct2, THEN conjunct2, THEN conjunct2], of "requestIdOf s env"]
    note run = ServeHTTP_parameter_rejected [where writer = writer and h = h,
        OF nodoc route endp ctype accept has handlers matching
        body allowed declared a [THEN conjunct1] step]
    show ?thesis
      using run by (simp add: renderResourceResult_status renderResourceResult_body)
  qed
  apply (rule impI)
  subgoal premises a
  proof -
    note run = ServeHTTP_parameters_accepted [where writer = writer and h = h,
        OF nodoc route endp ctype accept has handlers matching body allowed
        a [THEN conjunct1] ctx]
    have mem: "(qpKey, qpObject) \<in> set (QueryParameters resource)"
      by (simp add: declared)
    have "ContextQueryParameters ctx qpKey = Some (queryParameterValue (URL_Query request) qpKey qpObject)"
      by (simp add: ctx storeQueryParameters_declared [OF a [THEN conjunct2] mem])
    then have "ContextQueryParameters ctx qpKey = Some (DefaultValue qpObject)"
      by (simp add: queryParameterValue_def empty)
    then show ?thesis
      using run by blast
  qed
  done

theorem C9_empty_value_is_absent_witness:
  "ServeHTTP exampleServer echoCollaborators newWriter
     (getRequest ''/items'' [''limit'' \<mapsto> [[]]]) (\<lambda>_. 0) =
   ServeHTTP exampleServer echoCollaborators newWriter
     (getRequest ''/items'' Map.empty) (\<lambda>_. 0) \<and>
   exit (ServeHTTP exampleServer echoCollaborators newWriter
     (getRequest ''/items'' [''limit'' \<mapsto> [[]]]) (\<lambda>_. 0)) = Executed \<and>
   WrittenStatus (response (ServeHTTP exampleServer echoCollaborators newWriter
     (getRequest ''/items'' [''limit'' \<mapsto> [[]]]) (\<lambda>_. 0))) = [200] \<and>
   WrittenBody (response (ServeHTTP exampleServer echoCollaborators newWriter
     (getRequest ''/items'' [''limit'' \<mapsto> [[]]]) (\<lambda>_. 0))) = ''10'' \<and>
   exit (ServeHTTP exampleServer echoCollaborators newWriter
     (getRequest ''/reports'' [''limit'' \<mapsto> [[]]]) (\<lambda>_. 0)) = DefaultValueMisconfigured \<and>
   WrittenStatus (response (ServeHTTP exampleServer echoCollaborators newWriter
     (getRequest ''/reports'' [''limit'' \<mapsto> [[]]]) (\<lambda>_. 0))) = [400] \<and>
   WrittenBody (response (ServeHTTP exampleServer echoCollaborators newWriter
     (getRequest ''/reports'' [''limit'' \<mapsto> [[]]]) (\<lambda>_. 0))) =
     ''[o] Query parameter limit default value must be of kind int''"
proof -
  have allowed: "(None :: string option) \<noteq> None \<or> ([] :: string) = []"
    by simp
  have items: "QueryParameters itemsHandler =
      [] @ (''limit'', \<lparr>Kind = ''int'', DefaultValue = ''10'',
                       FormatValidator = Some limitValidator\<rparr>) # []"
    by (simp add: itemsHandler_def)
  have reports: "QueryParameters reportsHandler =
      [] @ (''limit'', \<lparr>Kind = ''int'', DefaultValue = ''ten'', FormatValidator = None\<rparr>) # []"
    by (simp add: reportsHandler_def)
  have empty: "Get (URL_Query (getRequest p [''limit'' \<mapsto> [[]]])) ''limit'' = []" for p
    by (simp add: getRequest_def Get_def)
  have req: "getRequest ''/items'' [''limit'' \<mapsto> [[]]] =
        (getRequest ''/items'' Map.empty)\<lparr>URL_Query := Map.empty(''limit'' \<mapsto> [] # [])\<rparr>"
      "getRequest ''/items'' Map.empty =
        (getRequest ''/items'' Map.empty)\<lparr>URL_Query := Map.empty(''limit'' := None)\<rparr>"
    by (simp_all add: getRequest_def)
  note onItems = C9_empty_value_is_absent [where s = exampleServer and env = echoCollaborators
      and request = "getRequest ''/items'' [''limit'' \<mapsto> [[]]]"
      and node = "Node (Some itemsEndpoint)" and routeVariables = Map.empty
      and endp = itemsEndpoint and contentTypeParser = "[]"
      and acceptParser = "[''application/json'']" and resource = itemsHandler
      and contentTypeIn = None and contentTypeOut = "''application/json''"
      and bodyInBytes = "[]" and writer = newWriter and h = "\<lambda>_. 0"
      and validator = limitValidator,
      OF _ _ _ _ _ _ _ _ _ allowed items refl empty]
  note onReports = C9_empty_value_is_absent [where s = exampleServer and env = echoCollaborators
      and request = "getRequest ''/reports'' [''limit'' \<mapsto> [[]]]"
      and node = "Node (Some \<lparr>route = ''/reports'', resourceHandlers = [reportsHandler]\<rparr>)"
      and routeVariables = Map.empty
      and endp = "\<lparr>route = ''/reports'', resourceHandlers = [reportsHandler]\<rparr>"
      and contentTypeParser = "[]"
      and acceptParser = "[''application/json'']" and resource = reportsHandler
      and contentTypeIn = None and contentTypeOut = "''application/json''"
      and bodyInBytes = "[]" and writer = newWriter and h = "\<lambda>_. 0"
      and validator = limitValidator,
      OF _ _ _ _ _ _ _ _ _ allowed reports refl empty]
  from onItems echo_reaches
  have same: "\<forall>(s' :: nat Server) (env' :: (nat, string, string list, nat \<Rightarrow> nat) collaborators)
        writer' request' urlValues vs h'.
        ServeHTTP s' env' writer' (request'\<lparr>URL_Query := urlValues(''limit'' \<mapsto> [] # vs)\<rparr>) h' =
        ServeHTTP s' env' writer' (request'\<lparr>URL_Query := urlValues(''limit'' := None)\<rparr>) h'"
    by (simp add: getRequest_reads Get_def)
  have absent: "ServeHTTP exampleServer echoCollaborators newWriter
       (getRequest ''/items'' [''limit'' \<mapsto> [[]]]) (\<lambda>_. 0) =
     ServeHTTP exampleServer echoCollaborators newWriter
       (getRequest ''/items'' Map.empty) (\<lambda>_. 0)"
    by (subst req(1), subst (2) req(2)) (rule same [rule_format])
  from onItems echo_reaches
  have substituted: "exit (ServeHTTP exampleServer echoCollaborators newWriter
       (getRequest ''/items'' [''limit'' \<mapsto> [[]]]) (\<lambda>_. 0)) = Executed \<and>
     WrittenStatus (response (ServeHTTP exampleServer echoCollaborators newWriter
       (getRequest ''/items'' [''limit'' \<mapsto> [[]]]) (\<lambda>_. 0))) = [200] \<and>
     WrittenBody (response (ServeHTTP exampleServer echoCollaborators newWriter
       (getRequest ''/items'' [''limit'' \<mapsto> [[]]]) (\<lambda>_. 0))) = ''10''"
    by (simp add: getRequest_reads echo_defs)
  from onReports echo_reaches
  have checked: "exit (ServeHTTP exampleServer echoCollaborators newWriter
       (getRequest ''/reports'' [''limit'' \<mapsto> [[]]]) (\<lambda>_. 0)) = DefaultValueMisconfigured \<and>
     WrittenStatus (response (ServeHTTP exampleServer echoCollaborators newWriter
       (getRequest ''/reports'' [''limit'' \<mapsto> [[]]]) (\<lambda>_. 0))) = [400] \<and>
     WrittenBody (response (ServeHTTP exampleServer echoCollaborators newWriter
       (getRequest ''/reports'' [''limit'' \<mapsto> [[]]]) (\<lambda>_. 0))) =
       ''[o] Query parameter limit default value must be of kind int''"
    by (simp add: getRequest_reads echo_defs)
  from absent substituted checked show ?thesis
    by blast
qed

subsection \<open>The headers of a rendered response\<close>

lemma digit_value_digit: "d < 10 \<Longrightarrow> digit_value (digit d) = d"
proof -
  assume "d < 10"
  then have "d = 0 \<or> d = 1 \<or> d = 2 \<or> d = 3 \<or> d = 4 \<or> d = 5 \<or> d = 6 \<or> d = 7 \<or> d = 8 \<or> d = 9"
    by arith
  then show ?thesis
    by (auto simp: digit_def digit_value_def)
qed

lemma decimal_value_snoc: "decimal_value (ds @ [c]) = 10 * decimal_value ds + digit_value c"
  by (simp add: decimal_value_def)

lemma decimal_value_Itoa_nat: "decimal_value (Itoa_nat n) = n"
proof (induction n rule: Itoa_nat.induct)
  case (1 n)
  show ?case
  proof (cases "n < 10")
    case True
    then show ?thesis
      by (subst Itoa_nat.simps) (simp add: decimal_value_def digit_value_digit)
  next
    case False
    then have "decimal_value (Itoa_nat (n div 10)) = n div 10"
      using "1.IH" by simp
    with False show ?thesis
      by (subst Itoa_nat.simps) (simp add: decimal_value_snoc digit_value_digit)
  qed
qed

lemma decimal_value_Itoa: "0 \<le> i \<Longrightarrow> int (decimal_value (Itoa i)) = i"
  by (simp add: Itoa_def decimal_value_Itoa_nat)

lemma renderResourceResult_Content_Length:
  "Header (renderResourceResult w r ct rid) ''Content-Length'' =
     Some [Itoa (case Body r of None \<Rightarrow> 0 | Some b \<Rightarrow> int (length b))]"
  by (simp add: renderResourceResult_def Let_def WriteHeader_def WriteTo_def Set_value_def Add_def
        split: option.splits)

lemma renderResourceResult_Content_Type:
  "Header (renderResourceResult w r ct rid) ''Content-Type'' =
     (if 0 < (case Body r of None \<Rightarrow> 0 | Some b \<Rightarrow> length b)
      then Some ((case Header w ''Content-Type'' of None \<Rightarrow> [] | Some vs \<Rightarrow> vs) @ [ct])
      else Header w ''Content-Type'')"
  by (simp add: renderResourceResult_def Let_def WriteHeader_def WriteTo_def Set_value_def Add_def
        split: option.splits)

lemma rendered_renderResourceResult: "rendered w rid (renderResourceResult w result ct rid)"
  unfolding rendered_def by blast

lemma ServeHTTP_resource_rendered:
  "exit (ServeHTTP_resource env w req h rid ctx c r cti cto) = NilContentTypeOut \<or>
   rendered w rid (response (ServeHTTP_resource env w req h rid ctx c r cti cto))"
  by (simp add: ServeHTTP_resource_def Let_def rendered_renderResourceResult
        split: prod.splits option.splits sum.splits)

lemma ServeHTTP_rendered:
  "exit (ServeHTTP s env w req h) = DocumentationServed \<or>
   exit (ServeHTTP s env w req h) = NilContentTypeOut \<or>
   rendered w (requestIdOf s env) (response (ServeHTTP s env w req h))"
  using ServeHTTP_resource_rendered [of env w req h "requestIdOf s env"]
  by (simp add: ServeHTTP_def Let_def rendered_renderResourceResult
        split: prod.splits option.splits)


lemma rendered_fresh:
  assumes "rendered newWriter rid w'"
  shows "Header w' ''Content-Length'' = Some [Itoa (int (length (WrittenBody w')))] \<and>
         (Header w' ''Content-Type'' = None) = (WrittenBody w' = []) \<and>
         length (WrittenStatus w') = 1"
proof -
  from assms obtain result ct where w': "w' = renderResourceResult newWriter result ct rid"
    unfolding rendered_def by blast
  show ?thesis
    unfolding w'
    by (simp add: renderResourceResult_Content_Length renderResourceResult_Content_Type
          renderResourceResult_body renderResourceResult_status newWriter_def
          split: option.splits)
qed

text \<open>
  Claim C10. \<^verbatim>\<open>renderResourceResult\<close> sets the Content-Length header to the
  decimal rendering of the byte length of the result body, 0 when the body is nil,
  and it adds the content type to the Content-Type header exactly when that length
  is positive: on a writer without a Content-Type header, the rendered response
  has one if and only if the body is not empty. So it is for every response that
  the dispatcher renders on a fresh writer, a successful dispatch included: the
  Content-Length header is the length of the body written, and there is no
  Content-Type header if and only if no body is written.
\<close>

theorem C10_content_headers:
  "Header (renderResourceResult writer result contentType requestId) ''Content-Length'' =
     Some [Itoa (case Body result of None \<Rightarrow> 0 | Some b \<Rightarrow> int (length b))] \<and>
   decimal_value (Itoa (case Body result of None \<Rightarrow> 0 | Some b \<Rightarrow> int (length b))) =
     (case Body result of None \<Rightarrow> 0 | Some b \<Rightarrow> length b) \<and>
   Header (renderResourceResult writer result contentType requestId) ''Content-Type'' =
     (if 0 < (case Body result of None \<Rightarrow> 0 | Some b \<Rightarrow> length b)
      then Some ((case Header writer ''Content-Type'' of None \<Rightarrow> [] | Some vs \<Rightarrow> vs) @
                 [contentType])
      else Header writer ''Content-Type'') \<and>
   (Header writer ''Content-Type'' = None \<longrightarrow>
      (Header (renderResourceResult writer result contentType requestId) ''Content-Type'' \<noteq> None) =
      (0 < (case Body result of None \<Rightarrow> 0 | Some b \<Rightarrow> length b))) \<and>
   (exit (ServeHTTP s env newWriter request h) \<noteq> DocumentationServed \<and>
    exit (ServeHTTP s env newWriter request h) \<noteq> NilContentTypeOut \<longrightarrow>
      Header (response (ServeHTTP s env newWriter request h)) ''Content-Length'' =
        Some [Itoa (int (length (WrittenBody (response (ServeHTTP s env newWriter request h)))))] \<and>
      (Header (response (ServeHTTP s env newWriter request h)) ''Content-Type'' = None) =
        (WrittenBody (response (ServeHTTP s env newWriter request h)) = []))"
proof (intro conjI impI)
  show "Header (renderResourceResult writer result contentType requestId) ''Content-Length'' =
     Some [Itoa (case Body result of None \<Rightarrow> 0 | Some b \<Rightarrow> int (length b))]"
    by (rule renderResourceResult_Content_Length)
  show "decimal_value (Itoa (case Body result of None \<Rightarrow> 0 | Some b \<Rightarrow> int (length b))) =
     (case Body result of None \<Rightarrow> 0 | Some b \<Rightarrow> length b)"
    by (simp add: Itoa_def decimal_value_Itoa_nat split: option.splits)
  show ct: "Header (renderResourceResult writer result contentType requestId) ''Content-Type'' =
     (if 0 < (case Body result of None \<Rightarrow> 0 | Some b \<Rightarrow> length b)
      then Some ((case Header writer ''Content-Type'' of None \<Rightarrow> [] | Some vs \<Rightarrow> vs) @
                 [contentType])
      else Header writer ''Content-Type'')"
    by (rule renderResourceResult_Content_Type)
  show "(Header (renderResourceResult writer result contentType requestId) ''Content-Type'' \<noteq> None) =
      (0 < (case Body result of None \<Rightarrow> 0 | Some b \<Rightarrow> length b))"
    if "Header writer ''Content-Type'' = None"
    using that by (simp add: ct)
next
  assume "exit (ServeHTTP s env newWriter request h) \<noteq> DocumentationServed \<and>
    exit (ServeHTTP s env newWriter request h) \<noteq> NilContentTypeOut"
  with ServeHTTP_rendered [of s env newWriter request h]
  have r: "rendered newWriter (requestIdOf s env) (response (ServeHTTP s env newWriter request h))"
    by blast
  from rendered_fresh [OF r]
  show "Header (response (ServeHTTP s env newWriter request h)) ''Content-Length'' =
        Some [Itoa (int (length (WrittenBody (response (ServeHTTP s env newWriter request h)))))]"
    and "(Header (response (ServeHTTP s env newWriter request h)) ''Content-Type'' = None) =
        (WrittenBody (response (ServeHTTP s env newWriter request h)) = [])"
    by blast+
qed

theorem C10_content_headers_witness:
  "Header newWriter ''Content-Type'' = None \<and>
   Header (renderResourceResult newWriter \<lparr>HttpStatus = 204, Body = None\<rparr>
     ''application/json'' ''o'') ''Content-Length'' = Some [''0''] \<and>
   Header (renderResourceResult newWriter \<lparr>HttpStatus = 204, Body = None\<rparr>
     ''application/json'' ''o'') ''Content-Type'' = None \<and>
   exit (ServeHTTP exampleServer exampleCollaborators newWriter
     (getRequest ''/items'' Map.empty) (\<lambda>_. 0)) = Executed \<and>
   WrittenBody (response (ServeHTTP exampleServer exampleCollaborators newWriter
     (getRequest ''/items'' Map.empty) (\<lambda>_. 0))) = ''1'' \<and>
   Header (response (ServeHTTP exampleServer exampleCollaborators newWriter
     (getRequest ''/items'' Map.empty) (\<lambda>_. 0))) ''Content-Length'' = Some [''1''] \<and>
   Header (response (ServeHTTP exampleServer exampleCollaborators newWriter
     (getRequest ''/items'' Map.empty) (\<lambda>_. 0))) ''Content-Type'' \<noteq> None"
proof -
  note inst = C10_content_headers [where writer = newWriter
      and result = "\<lparr>HttpStatus = 204, Body = None\<rparr>" and contentType = "''application/json''"
      and requestId = "''o''" and s = exampleServer and env = exampleCollaborators
      and request = "getRequest ''/items'' Map.empty" and h = "\<lambda>_. 0"]
  have fresh: "Header newWriter ''Content-Type'' = None"
    by (simp add: newWriter_def)
  have ex: "exit (ServeHTTP exampleServer exampleCollaborators newWriter
     (getRequest ''/items'' Map.empty) (\<lambda>_. 0)) = Executed"
    by (simp add: example_defs run_defs)
  have body: "WrittenBody (response (ServeHTTP exampleServer exampleCollaborators newWriter
     (getRequest ''/items'' Map.empty) (\<lambda>_. 0))) = ''1''"
    by (simp add: example_defs run_defs)
  from inst fresh ex body show ?thesis
    by (simp add: Itoa_def Itoa_nat.simps digit_def)
qed

subsection \<open>One response, and its status\<close>

text \<open>
  Every return of the dispatcher but the documentation and the nil dereference of
  line 307 renders one result on the writer it was given: one status is written.
  An error return writes the status of the table \<open>errorStatus\<close> and leaves the
  state of the handler objects alone.
\<close>

lemma checkQueryParameters_errorStatus:
  "checkQueryParameters env rid uv ps m = (cs, Inl (x, r)) \<Longrightarrow>
     errorStatus x = Some (HttpStatus r)"
  by (drule checkQueryParameters_exit) auto

lemma ServeHTTP_resource_error_status:
  "errorStatus (exit (ServeHTTP_resource env w req h rid ctx c r cti cto)) = Some st \<longrightarrow>
     WrittenStatus (response (ServeHTTP_resource env w req h rid ctx c r cti cto)) =
       WrittenStatus w @ [st] \<and>
     heap (ServeHTTP_resource env w req h rid ctx c r cti cto) = h"
  by (simp add: ServeHTTP_resource_def Let_def renderResourceResult_status
        split: prod.splits option.splits sum.splits)
     (auto dest!: checkQueryParameters_errorStatus)

lemma ServeHTTP_error_status:
  "errorStatus (exit (ServeHTTP s env w req h)) = Some st \<longrightarrow>
     WrittenStatus (response (ServeHTTP s env w req h)) = WrittenStatus w @ [st] \<and>
     heap (ServeHTTP s env w req h) = h"
  using ServeHTTP_resource_error_status [of env w req h "requestIdOf s env" _ _ _ _ _ st]
  by (simp add: ServeHTTP_def Let_def renderResourceResult_status
        split: prod.splits option.splits)

lemma ServeHTTP_one_response:
  assumes "exit (ServeHTTP s env w req h) \<noteq> DocumentationServed"
      and "exit (ServeHTTP s env w req h) \<noteq> NilContentTypeOut"
  shows "length (WrittenStatus (response (ServeHTTP s env w req h))) =
           Suc (length (WrittenStatus w))"
proof -
  from assms ServeHTTP_rendered [of s env w req h]
  obtain result ct where
    "response (ServeHTTP s env w req h) = renderResourceResult w result ct (requestIdOf s env)"
    unfolding rendered_def by blast
  then show ?thesis
    by (simp add: renderResourceResult_status)
qed

subsection \<open>A default value of the wrong kind\<close>

text \<open>
  Whatever the order in which the declared parameters are visited, a declared
  parameter that is absent and whose default value fails the kind check makes the
  loop return early: the request is answered with status 400 and the handler is
  not executed.
\<close>

lemma checkQueryParameter_misconfigured:
  "Get uv k = [] \<Longrightarrow> \<not> IsValidType env qp (DefaultValue qp) \<Longrightarrow>
     \<exists>cs r. checkQueryParameter env rid uv k qp = (cs, Inl (DefaultValueMisconfigured, r))"
  by (simp add: checkQueryParameter_def)

lemma checkQueryParameters_misconfigured:
  "(k, qp) \<in> set ps \<Longrightarrow> Get uv k = [] \<Longrightarrow> \<not> IsValidType env qp (DefaultValue qp) \<Longrightarrow>
     \<exists>cs x r. checkQueryParameters env rid uv ps m = (cs, Inl (x, r))"
proof (induction ps arbitrary: m)
  case Nil
  then show ?case by simp
next
  case (Cons p ps)
  obtain k' qp' where p: "p = (k', qp')" by (cases p)
  obtain c1 r1 where step: "checkQueryParameter env rid uv k' qp' = (c1, r1)"
    by (cases "checkQueryParameter env rid uv k' qp'")
  show ?case
  proof (cases r1)
    case (Inl a)
    obtain x r where "a = (x, r)" by (cases a)
    with Inl p step show ?thesis by simp
  next
    case (Inr v)
    have "(k, qp) \<noteq> (k', qp')"
    proof
      assume "(k, qp) = (k', qp')"
      with checkQueryParameter_misconfigured [OF Cons.prems(2) Cons.prems(3), of rid] step Inr
      show False by auto
    qed
    with Cons.prems(1) p have "(k, qp) \<in> set ps" by auto
    from Cons.IH [OF this Cons.prems(2) Cons.prems(3), of "m(k' \<mapsto> v)"]
    obtain cs x r where "checkQueryParameters env rid uv ps (m(k' \<mapsto> v)) = (cs, Inl (x, r))"
      by blast
    with p step Inr show ?thesis by simp
  qed
qed

lemma ServeHTTP_misconfigured_default:
  assumes nodoc: "\<not> (documentationEndpointEnabled s \<and> documentationEndpointUrl s = URL_Path request)"
      and route: "router s (URL_Path request) = (Some node, routeVariables, None)"
      and endp: "GetEndpoint node = Some endp"
      and ctype: "newContentTypeHeaderParser env (Get (RequestHeader request) ''Content-Type'') =
                    (contentTypeParser, None)"
      and accept: "newAcceptHeaderParser env (Get (RequestHeader request) ''Accept'') =
                    (acceptParser, None)"
      and has: "HasAcceptElement env acceptParser"
      and handlers: "GetResourceHandlers endp \<noteq> []"
      and matching: "FindMatchingResource env endp (Method request) contentTypeParser acceptParser =
                    (Some resource, contentTypeIn, contentTypeOut)"
      and body: "RequestBody request = (bodyInBytes, None)"
      and allowed: "contentTypeIn \<noteq> None \<or> bodyInBytes = []"
      and declared: "(qpKey, qpObject) \<in> set (QueryParameters resource)"
      and absent: "Get (URL_Query request) qpKey = []"
      and invalid: "\<not> IsValidType env qpObject (DefaultValue qpObject)"
  shows "WrittenStatus (response (ServeHTTP s env writer request h)) =
           WrittenStatus writer @ [StatusBadRequest] \<and>
         (\<forall>i c. CallExecute i c \<notin> set (calls (ServeHTTP s env writer request h))) \<and>
         heap (ServeHTTP s env writer request h) = h"
proof -
  from checkQueryParameters_misconfigured [OF declared absent invalid]
  obtain cs x r where loop: "checkQueryParameters env (requestIdOf s env) (URL_Query request)
      (QueryParameters resource) Map.empty = (cs, Inl (x, r))"
    by blast
  note run = ServeHTTP_resource_rejected [OF body allowed loop]
  note st = checkQueryParameters_exit [OF loop]
  have nc: "\<And>i c. CallExecute i c \<notin> set cs"
    using checkQueryParameters_calls [OF loop] .
  show ?thesis
    using st nc
    by (simp add: ServeHTTP_matched [OF nodoc route endp ctype accept has handlers matching] run
          renderResourceResult_status)
qed

text \<open>
  Claim C1 asks for a 500-class status when a declared query parameter is absent
  and its default value fails the kind check. On the concrete server the handler
  of \<^verbatim>\<open>/reports\<close> declares \<^verbatim>\<open>limit\<close> of kind \<^verbatim>\<open>int\<close> with the default
  \<^verbatim>\<open>ten\<close>. A request without \<^verbatim>\<open>limit\<close> ends by the return for a
  misconfigured default, and that return writes the status 400
  (\<^verbatim>\<open>http.StatusBadRequest\<close>, line 279); the handler is not executed: the last
  call is the kind check of the default.
\<close>

theorem C1_misconfigured_default_answers_400:
  "exit (ServeHTTP exampleServer exampleCollaborators newWriter
     (getRequest ''/reports'' Map.empty) (\<lambda>_. 0)) = DefaultValueMisconfigured \<and>
   WrittenStatus (response (ServeHTTP exampleServer exampleCollaborators newWriter
     (getRequest ''/reports'' Map.empty) (\<lambda>_. 0))) = [400] \<and>
   WrittenBody (response (ServeHTTP exampleServer exampleCollaborators newWriter
     (getRequest ''/reports'' Map.empty) (\<lambda>_. 0))) =
     ''[o] Query parameter limit default value must be of kind int'' \<and>
   calls (ServeHTTP exampleServer exampleCollaborators newWriter
     (getRequest ''/reports'' Map.empty) (\<lambda>_. 0)) =
     [CallFindNodeByRoute ''/reports'', CallGetEndpoint, CallNewContentTypeHeaderParser [],
      CallNewAcceptHeaderParser ''application/json'', CallHasAcceptElement, CallGetEndpoint,
      CallGetResourceHandlers, CallFindMatchingResource ''GET'', CallReadAll,
      CallIsValidType ''limit'' ''ten'']"
  by (simp add: example_defs run_defs)

text \<open>
  Claim C3 has the dispatcher answer 500 to every server-side contract violation,
  the misconfigured default among them. On the concrete server a request to
  \<^verbatim>\<open>/reports\<close> with a query string that does not give \<^verbatim>\<open>limit\<close> is answered
  by one status, and it is 400, not 500.
\<close>

theorem C3_misconfigured_default_is_not_500:
  "exit (ServeHTTP exampleServer exampleCollaborators newWriter
     (getRequest ''/reports'' [''page'' \<mapsto> [''2'']]) (\<lambda>_. 0)) = DefaultValueMisconfigured \<and>
   WrittenStatus (response (ServeHTTP exampleServer exampleCollaborators newWriter
     (getRequest ''/reports'' [''page'' \<mapsto> [''2'']]) (\<lambda>_. 0))) = [StatusBadRequest] \<and>
   WrittenStatus (response (ServeHTTP exampleServer exampleCollaborators newWriter
     (getRequest ''/reports'' [''page'' \<mapsto> [''2'']]) (\<lambda>_. 0))) \<noteq> [StatusInternalServerError]"
  by (simp add: example_defs run_defs)

subsection \<open>The object that is executed\<close>

text \<open>
  A request that reaches execution calls \<^verbatim>\<open>Execute\<close> on the implementation
  object of the resource handler that \<^verbatim>\<open>FindMatchingResource\<close> returned, and the
  state that call leaves is the state the next request starts from.
\<close>

lemma ServeHTTP_executes_matching_resource:
  assumes nodoc: "\<not> (documentationEndpointEnabled s \<and> documentationEndpointUrl s = URL_Path request)"
      and route: "router s (URL_Path request) = (Some node, routeVariables, None)"
      and endp: "GetEndpoint node = Some endp"
      and ctype: "newContentTypeHeaderParser env (Get (RequestHeader request) ''Content-Type'') =
                    (contentTypeParser, None)"
      and accept: "newAcceptHeaderParser env (Get (RequestHeader request) ''Accept'') =
                    (acceptParser, None)"
      and has: "HasAcceptElement env acceptParser"
      and handlers: "GetResourceHandlers endp \<noteq> []"
      and matching: "FindMatchingResource env endp (Method request) contentTypeParser acceptParser =
                    (Some resource, contentTypeIn, Some contentTypeOut)"
      and body: "RequestBody request = (bodyInBytes, None)"
      and allowed: "contentTypeIn \<noteq> None \<or> bodyInBytes = []"
      and loop: "checkQueryParameters env (requestIdOf s env) (URL_Query request)
                   (QueryParameters resource) Map.empty = (cs, Inr m)"
  shows "\<exists>ctx. last (calls (ServeHTTP s env writer request h)) =
             CallExecute (Implementation resource) ctx \<and>
           heap (ServeHTTP s env writer request h) =
             snd (Execute env (Implementation resource) ctx h)"
proof -
  obtain result h' where ex: "Execute env (Implementation resource)
       (emptyContext\<lparr>RouteVariables := routeVariables, ContextHeader := RequestHeader request,
          RequestId := (if debugEnableLogRequestIdentifier s then Some (requestIdOf s env) else None),
          ContentTypeIn := contentTypeIn, ContentTypeOut := Some contentTypeOut,
          ContextBody := Some bodyInBytes, ContextQueryParameters := m\<rparr>) h = (result, h')"
    by (cases "Execute env (Implementation resource)
       (emptyContext\<lparr>RouteVariables := routeVariables, ContextHeader := RequestHeader request,
          RequestId := (if debugEnableLogRequestIdentifier s then Some (requestIdOf s env) else None),
          ContentTypeIn := contentTypeIn, ContentTypeOut := Some contentTypeOut,
          ContextBody := Some bodyInBytes, ContextQueryParameters := m\<rparr>) h")
  show ?thesis
    by (simp add: ServeHTTP_matched [OF nodoc route endp ctype accept has handlers matching]
          ServeHTTP_resource_executed [OF body allowed loop ex] ex)
qed

text \<open>
  Claim C2 asks that the handler executed be a fresh instance made by the factory
  of the matched resource handler, never the registered object. On the concrete
  server two requests to \<^verbatim>\<open>/items\<close>, the second starting from the state the
  first has left, are both executed on the implementation object registered with
  the handler, and the body of the second shows the state the first has left in
  that object: the counter reads 1, then 2.
\<close>

theorem C2_handler_object_shared_across_requests:
  "exit (ServeHTTP exampleServer exampleCollaborators newWriter
     (getRequest ''/items'' Map.empty) (\<lambda>_. 0)) = Executed \<and>
   WrittenBody (response (ServeHTTP exampleServer exampleCollaborators newWriter
     (getRequest ''/items'' Map.empty) (\<lambda>_. 0))) = ''1'' \<and>
   exit (ServeHTTP exampleServer exampleCollaborators newWriter
     (getRequest ''/items'' Map.empty)
     (heap (ServeHTTP exampleServer exampleCollaborators newWriter
        (getRequest ''/items'' Map.empty) (\<lambda>_. 0)))) = Executed \<and>
   WrittenBody (response (ServeHTTP exampleServer exampleCollaborators newWriter
     (getRequest ''/items'' Map.empty)
     (heap (ServeHTTP exampleServer exampleCollaborators newWriter
        (getRequest ''/items'' Map.empty) (\<lambda>_. 0))))) = ''2'' \<and>
   (\<exists>ctx. last (calls (ServeHTTP exampleServer exampleCollaborators newWriter
       (getRequest ''/items'' Map.empty) (\<lambda>_. 0))) =
     CallExecute (Implementation itemsHandler) ctx) \<and>
   (\<exists>ctx. last (calls (ServeHTTP exampleServer exampleCollaborators newWriter
       (getRequest ''/items'' Map.empty)
       (heap (ServeHTTP exampleServer exampleCollaborators newWriter
          (getRequest ''/items'' Map.empty) (\<lambda>_. 0))))) =
     CallExecute (Implementation itemsHandler) ctx)"
  by (simp add: example_defs run_defs)

end
